theory Spec2Isabelle
  imports Complex_Main "HOL-Library.Multiset"
begin

section \<open>Outfit recommendation engine\<close>

text \<open>
  A shallow embedding of the recommendation engine (\<^verbatim>\<open>recommendation-engine.ts\<close>).
  JavaScript numbers are modelled as exact rationals (the rounding of the arithmetic of
  IEEE doubles is not modelled), and a number that can be NaN as a \<open>rat option\<close>, with
  \<open>None\<close> for NaN.  Strings are character lists, and object identity
  of catalog products is equality of their records (the two agree for a catalog whose
  entries are pairwise different).  What the engine does not determine is an input: an
  environment gives the value of the k-th call of \<^verbatim>\<open>Math.random\<close> and of the clocks, and
  the order in which \<^verbatim>\<open>Array.prototype.sort\<close> leaves an array whose comparator is not
  consistent.
\<close>

subsection \<open>Data model\<close>

datatype ColorFamily =
  black | white | gray | navy | brown | beige | cream | green | blue | red | pink
  | purple | orange | multi

datatype StyleType = streetwear | casual | athletic | formal | luxury | minimalist

text \<open>
  The type declarations live in a module of their own (\<^verbatim>\<open>@/types/product\<close>); the
  record has the fields the engine reads.  \<open>color_family\<close> and \<open>style\<close> are optional,
  since the engine guards every read of them with a default.
\<close>

record Product =
  sku_id :: string
  title :: string
  brand_name :: string
  category :: string
  lowest_price :: int
  color_family :: "ColorFamily option"
  style :: "StyleType option"
  season :: string
  tags :: "string list"

text \<open>
  \<open>brand_cohesion\<close> is the one field that can be NaN (\<open>None\<close>): see
  \<open>calculateBrandCohesion\<close>.
\<close>

record ScoreBreakdown =
  color_harmony :: rat
  style_match :: rat
  brand_cohesion :: "rat option"
  price_balance :: rat
  season_fit :: rat

text \<open>
  The outfit identifier is \<^verbatim>\<open>outfit_${Date.now()}_${Math.random()...}\<close>; the model keeps
  the two readings it is rendered from.  The fields \<open>ident\<close>, \<open>top_item\<close> and
  \<open>bottom_item\<close> are the source's \<^verbatim>\<open>id\<close>, \<^verbatim>\<open>top\<close> and \<^verbatim>\<open>bottom\<close>.
\<close>

record Outfit =
  ident :: "int \<times> rat"
  top_item :: Product
  bottom_item :: Product
  footwear :: Product
  accessories :: "Product list"
  match_score :: rat
  score_breakdown :: ScoreBreakdown
  reasoning :: string
  total_price :: int

text \<open>The request's \<^verbatim>\<open>season\<close> field is \<open>req_season\<close> here.\<close>

record RecommendationRequest =
  base_product_id :: string
  preferred_style :: "StyleType option"
  req_season :: "string option"
  num_outfits :: "int option"

text \<open>The placeholder \<^verbatim>\<open>{} as Product\<close> of an unresolved request is \<open>None\<close>.\<close>

record RecommendationResponse =
  outfits :: "Outfit list"
  base_product :: "Product option"
  processing_time_ms :: rat
  cache_hit :: bool

text \<open>
  The catalog module is a collaborator of the engine and is taken as a parameter:
  the product list and its two lookups.
\<close>

record Catalog =
  products :: "Product list"
  getProductsByCategory :: "string \<Rightarrow> Product list"
  getProductById :: "string \<Rightarrow> Product option"

text \<open>
  The environment: \<open>random k\<close> is the result of the k-th call of \<^verbatim>\<open>Math.random\<close>,
  \<open>performance_now k\<close> that of the k-th call of \<^verbatim>\<open>performance.now\<close>, and
  \<open>date_now k\<close> the reading of \<^verbatim>\<open>Date.now\<close> when the k-th outfit is created.
  \<open>sort_order keys\<close> is the order, as a list of positions, in which the sort of the
  JavaScript engine leaves an array with these sort keys when the comparator is not
  consistent (the language leaves that order to the implementation).
\<close>

record Env =
  random :: "nat \<Rightarrow> rat"
  performance_now :: "nat \<Rightarrow> rat"
  date_now :: "nat \<Rightarrow> int"
  sort_order :: "rat option list \<Rightarrow> nat list"

subsection \<open>Precomputed scoring matrices\<close>

definition COLOR_HARMONY :: "(ColorFamily \<times> (ColorFamily \<times> rat) list) list" where
  "COLOR_HARMONY = [
    (black,
      [(black, 7 / 10), (white, 1), (gray, 95 / 100), (navy, 9 / 10), (brown, 8 / 10), (beige, 9 / 10), (cream, 95 / 100), (green, 8 / 10), (blue, 85 / 100), (red, 75 / 100), (pink, 7 / 10), (purple, 7 / 10), (orange, 7 / 10), (multi, 6 / 10)]),
    (white,
      [(black, 1), (white, 6 / 10), (gray, 9 / 10), (navy, 95 / 100), (brown, 85 / 100), (beige, 9 / 10), (cream, 85 / 100), (green, 85 / 100), (blue, 9 / 10), (red, 85 / 100), (pink, 8 / 10), (purple, 8 / 10), (orange, 85 / 100), (multi, 7 / 10)]),
    (gray,
      [(black, 95 / 100), (white, 9 / 10), (gray, 7 / 10), (navy, 9 / 10), (brown, 75 / 100), (beige, 85 / 100), (cream, 9 / 10), (green, 8 / 10), (blue, 85 / 100), (red, 7 / 10), (pink, 75 / 100), (purple, 75 / 100), (orange, 7 / 10), (multi, 6 / 10)]),
    (navy,
      [(black, 9 / 10), (white, 95 / 100), (gray, 9 / 10), (navy, 7 / 10), (brown, 9 / 10), (beige, 95 / 100), (cream, 95 / 100), (green, 75 / 100), (blue, 8 / 10), (red, 7 / 10), (pink, 7 / 10), (purple, 7 / 10), (orange, 65 / 100), (multi, 6 / 10)]),
    (brown,
      [(black, 8 / 10), (white, 85 / 100), (gray, 75 / 100), (navy, 9 / 10), (brown, 7 / 10), (beige, 95 / 100), (cream, 95 / 100), (green, 85 / 100), (blue, 75 / 100), (red, 65 / 100), (pink, 6 / 10), (purple, 6 / 10), (orange, 8 / 10), (multi, 6 / 10)]),
    (beige,
      [(black, 9 / 10), (white, 9 / 10), (gray, 85 / 100), (navy, 95 / 100), (brown, 95 / 100), (beige, 7 / 10), (cream, 8 / 10), (green, 85 / 100), (blue, 85 / 100), (red, 7 / 10), (pink, 75 / 100), (purple, 7 / 10), (orange, 8 / 10), (multi, 65 / 100)]),
    (cream,
      [(black, 95 / 100), (white, 85 / 100), (gray, 9 / 10), (navy, 95 / 100), (brown, 95 / 100), (beige, 8 / 10), (cream, 65 / 100), (green, 85 / 100), (blue, 85 / 100), (red, 75 / 100), (pink, 8 / 10), (purple, 75 / 100), (orange, 8 / 10), (multi, 65 / 100)]),
    (green,
      [(black, 8 / 10), (white, 85 / 100), (gray, 8 / 10), (navy, 75 / 100), (brown, 85 / 100), (beige, 85 / 100), (cream, 85 / 100), (green, 6 / 10), (blue, 7 / 10), (red, 5 / 10), (pink, 55 / 100), (purple, 6 / 10), (orange, 6 / 10), (multi, 55 / 100)]),
    (blue,
      [(black, 85 / 100), (white, 9 / 10), (gray, 85 / 100), (navy, 8 / 10), (brown, 75 / 100), (beige, 85 / 100), (cream, 85 / 100), (green, 7 / 10), (blue, 6 / 10), (red, 6 / 10), (pink, 65 / 100), (purple, 7 / 10), (orange, 55 / 100), (multi, 55 / 100)]),
    (red,
      [(black, 75 / 100), (white, 85 / 100), (gray, 7 / 10), (navy, 7 / 10), (brown, 65 / 100), (beige, 7 / 10), (cream, 75 / 100), (green, 5 / 10), (blue, 6 / 10), (red, 5 / 10), (pink, 65 / 100), (purple, 6 / 10), (orange, 5 / 10), (multi, 5 / 10)]),
    (pink,
      [(black, 7 / 10), (white, 8 / 10), (gray, 75 / 100), (navy, 7 / 10), (brown, 6 / 10), (beige, 75 / 100), (cream, 8 / 10), (green, 55 / 100), (blue, 65 / 100), (red, 65 / 100), (pink, 5 / 10), (purple, 7 / 10), (orange, 5 / 10), (multi, 5 / 10)]),
    (purple,
      [(black, 7 / 10), (white, 8 / 10), (gray, 75 / 100), (navy, 7 / 10), (brown, 6 / 10), (beige, 7 / 10), (cream, 75 / 100), (green, 6 / 10), (blue, 7 / 10), (red, 6 / 10), (pink, 7 / 10), (purple, 5 / 10), (orange, 5 / 10), (multi, 5 / 10)]),
    (orange,
      [(black, 7 / 10), (white, 85 / 100), (gray, 7 / 10), (navy, 65 / 100), (brown, 8 / 10), (beige, 8 / 10), (cream, 8 / 10), (green, 6 / 10), (blue, 55 / 100), (red, 5 / 10), (pink, 5 / 10), (purple, 5 / 10), (orange, 5 / 10), (multi, 55 / 100)]),
    (multi,
      [(black, 6 / 10), (white, 7 / 10), (gray, 6 / 10), (navy, 6 / 10), (brown, 6 / 10), (beige, 65 / 100), (cream, 65 / 100), (green, 55 / 100), (blue, 55 / 100), (red, 5 / 10), (pink, 5 / 10), (purple, 5 / 10), (orange, 55 / 100), (multi, 4 / 10)])]"

definition STYLE_COMPATIBILITY :: "(StyleType \<times> (StyleType \<times> rat) list) list" where
  "STYLE_COMPATIBILITY = [
    (streetwear,
      [(streetwear, 1), (casual, 85 / 100), (athletic, 8 / 10), (formal, 3 / 10), (luxury, 7 / 10), (minimalist, 75 / 100)]),
    (casual,
      [(streetwear, 85 / 100), (casual, 1), (athletic, 75 / 100), (formal, 5 / 10), (luxury, 7 / 10), (minimalist, 9 / 10)]),
    (athletic,
      [(streetwear, 8 / 10), (casual, 75 / 100), (athletic, 1), (formal, 2 / 10), (luxury, 5 / 10), (minimalist, 7 / 10)]),
    (formal,
      [(streetwear, 3 / 10), (casual, 5 / 10), (athletic, 2 / 10), (formal, 1), (luxury, 85 / 100), (minimalist, 8 / 10)]),
    (luxury,
      [(streetwear, 7 / 10), (casual, 7 / 10), (athletic, 5 / 10), (formal, 85 / 100), (luxury, 1), (minimalist, 85 / 100)]),
    (minimalist,
      [(streetwear, 75 / 100), (casual, 9 / 10), (athletic, 7 / 10), (formal, 8 / 10), (luxury, 85 / 100), (minimalist, 1)])]"

definition BRAND_TIERS :: "(string \<times> int) list" where
  "BRAND_TIERS = [
    (''jacquemus'', 5),
    (''omega'', 5),
    (''swatch x omega'', 5),
    (''amiri'', 5),
    (''balmain'', 5),
    (''gucci'', 5),
    (''fear of god'', 4),
    (''kenzo'', 4),
    (''polo ralph lauren'', 4),
    (''yeezy'', 4),
    (''ami paris'', 4),
    (''karl lagerfeld'', 4),
    (''all saints'', 4),
    (''nike'', 3),
    (''adidas'', 3),
    (''new balance'', 3),
    (''on'', 3),
    (''jordan'', 3),
    (''air jordan'', 3),
    (''supreme'', 3),
    (''dickies'', 2),
    (''casio'', 2),
    (''stanley'', 2),
    (''hashway'', 2),
    (''myugen'', 2),
    (''blacklist co'', 2),
    (''young grandpa'', 2),
    (''forfksake'', 2),
    (''denim co'', 2),
    (''basics'', 2),
    (''streetwear'', 2),
    (''nofomo'', 1),
    (''anti matter'', 1),
    (''saucy club'', 1),
    (''bearcare'', 1)]"

text \<open>\<^verbatim>\<open>COLOR_HARMONY[color1]?.[color2]\<close>: a lookup that may find nothing.\<close>

definition colorLookup :: "ColorFamily \<Rightarrow> ColorFamily \<Rightarrow> rat option" where
  "colorLookup c1 c2 =
     (case map_of COLOR_HARMONY c1 of None \<Rightarrow> None | Some row \<Rightarrow> map_of row c2)"

definition styleLookup :: "StyleType \<Rightarrow> StyleType \<Rightarrow> rat option" where
  "styleLookup s1 s2 =
     (case map_of STYLE_COMPATIBILITY s1 of None \<Rightarrow> None | Some row \<Rightarrow> map_of row s2)"

text \<open>
  \<^verbatim>\<open>COLOR_HARMONY[c1]?.[c2] ?? 0.5\<close> with \<^verbatim>\<open>c = item.color_family || 'black'\<close>, and the
  same for styles with the default \<^verbatim>\<open>'casual'\<close>.
\<close>

definition colorOf :: "Product \<Rightarrow> ColorFamily" where
  "colorOf p = (case color_family p of None \<Rightarrow> black | Some c \<Rightarrow> c)"

definition styleOf :: "Product \<Rightarrow> StyleType" where
  "styleOf p = (case style p of None \<Rightarrow> casual | Some s \<Rightarrow> s)"

definition colorScore :: "ColorFamily \<Rightarrow> ColorFamily \<Rightarrow> rat" where
  "colorScore c1 c2 = (case colorLookup c1 c2 of None \<Rightarrow> 5 / 10 | Some v \<Rightarrow> v)"

definition styleScore :: "StyleType \<Rightarrow> StyleType \<Rightarrow> rat" where
  "styleScore s1 s2 = (case styleLookup s1 s2 of None \<Rightarrow> 5 / 10 | Some v \<Rightarrow> v)"

text \<open>\<^verbatim>\<open>toLowerCase\<close> on the ASCII letters.\<close>

definition toLowerChar :: "char \<Rightarrow> char" where
  "toLowerChar c =
     (let n = (of_char c :: nat) in if 65 \<le> n \<and> n \<le> 90 then char_of (n + 32) else c)"

definition toLowerCase :: "string \<Rightarrow> string" where
  "toLowerCase s = map toLowerChar s"

text \<open>
  \<^verbatim>\<open>BRAND_TIERS\<close> is an object literal, so a lookup also finds the properties that every
  object inherits.  The key is in lower case, and the inherited properties with a name in
  lower case are \<^verbatim>\<open>constructor\<close> and \<^verbatim>\<open>__proto__\<close>; their values are a function and an
  object.
\<close>

definition inheritedProperty :: "string \<Rightarrow> bool" where
  "inheritedProperty key \<longleftrightarrow> key = ''constructor'' \<or> key = ''__proto__''"

text \<open>
  \<^verbatim>\<open>BRAND_TIERS[item.brand_name.toLowerCase()] || 2\<close>: the tier of the table, 2 for a brand
  that is not in it, and for the name of an inherited property a value that is not a number
  (\<open>None\<close>), which is truthy, so that the default 2 does not apply.
\<close>

definition brandTier :: "Product \<Rightarrow> int option" where
  "brandTier p =
     (let key = toLowerCase (brand_name p)
      in case map_of BRAND_TIERS key of
           Some t \<Rightarrow> if t = 0 then Some 2 else Some t
         | None \<Rightarrow> if inheritedProperty key then None else Some 2)"

subsection \<open>Scoring functions\<close>

text \<open>
  The two nested loops of \<^verbatim>\<open>calculateColorHarmony\<close>: the outer one walks the items, the
  inner one the items after the current one; the accumulator is
  \<open>(totalScore, comparisons)\<close>.
\<close>

fun colorPairs :: "Product list \<Rightarrow> rat \<times> nat \<Rightarrow> rat \<times> nat" where
  "colorPairs [] acc = acc"
| "colorPairs (x # xs) acc =
     colorPairs xs
       (fold (\<lambda>y (totalScore, comparisons).
                (totalScore + colorScore (colorOf x) (colorOf y), comparisons + 1)) xs acc)"

definition calculateColorHarmony :: "Product list \<Rightarrow> rat" where
  "calculateColorHarmony items =
     (let (totalScore, comparisons) = colorPairs items (0, 0)
      in if comparisons > 0 then totalScore / rat_of_nat comparisons else 5 / 10)"

fun stylePairs :: "Product list \<Rightarrow> rat \<times> nat \<Rightarrow> rat \<times> nat" where
  "stylePairs [] acc = acc"
| "stylePairs (x # xs) acc =
     stylePairs xs
       (fold (\<lambda>y (totalScore, comparisons).
                (totalScore + styleScore (styleOf x) (styleOf y), comparisons + 1)) xs acc)"

definition calculateStyleMatch :: "Product list \<Rightarrow> rat" where
  "calculateStyleMatch items =
     (let (totalScore, comparisons) = stylePairs items (0, 0)
      in if comparisons > 0 then totalScore / rat_of_nat comparisons else 5 / 10)"

text \<open>
  \<^verbatim>\<open>calculateBrandCohesion\<close>.  A tier that is not a number turns the sum of
  \<^verbatim>\<open>tiers.reduce((a, b) => a + b, 0)\<close> into a string, the average and the variance into
  NaN, and \<^verbatim>\<open>Math.max(0, NaN)\<close> is NaN; so is the result for an empty list, where the
  average is 0 / 0.  \<open>those\<close> gives the tiers when all of them are numbers.
\<close>

definition calculateBrandCohesion :: "Product list \<Rightarrow> rat option" where
  "calculateBrandCohesion items =
     (case those (map brandTier items) of
        None \<Rightarrow> None
      | Some tiers \<Rightarrow>
          if length tiers = 0 then None
          else
            let avgTier = rat_of_int (fold (\<lambda>b a. a + b) tiers 0) / rat_of_nat (length tiers);
                variance = fold (\<lambda>tier sum. sum + (rat_of_int tier - avgTier) ^ 2) tiers 0
                             / rat_of_nat (length tiers)
            in Some (max 0 (1 - variance / 4)))"

definition calculatePriceBalance :: "Product list \<Rightarrow> rat" where
  "calculatePriceBalance items =
     (let prices = filter (\<lambda>p. p > 0) (map lowest_price items)
      in if length prices = 0 then 5 / 10
         else
           let avgPrice = rat_of_int (fold (\<lambda>b a. a + b) prices 0) / rat_of_nat (length prices);
               variance = fold (\<lambda>p sum. sum + ((rat_of_int p - avgPrice) / avgPrice) ^ 2) prices 0
                            / rat_of_nat (length prices);
               balanceScore = max 0 (1 - variance)
           in balanceScore)"

text \<open>\<^verbatim>\<open>!targetSeason\<close> holds for an absent season and for the empty string.\<close>

definition calculateSeasonFit :: "Product list \<Rightarrow> string option \<Rightarrow> rat" where
  "calculateSeasonFit items targetSeason =
     (if targetSeason = None \<or> targetSeason = Some [] \<or> targetSeason = Some ''all'' then 1
      else
        let seasonMatches =
              length (filter (\<lambda>item. season item = ''all'' \<or> Some (season item) = targetSeason) items)
        in rat_of_nat seasonMatches / rat_of_nat (length items))"

subsection \<open>Reasoning text and identifiers\<close>

definition colorName :: "ColorFamily \<Rightarrow> string" where
  "colorName c =
     (case c of black \<Rightarrow> ''black'' | white \<Rightarrow> ''white'' | gray \<Rightarrow> ''gray'' | navy \<Rightarrow> ''navy''
      | brown \<Rightarrow> ''brown'' | beige \<Rightarrow> ''beige'' | cream \<Rightarrow> ''cream'' | green \<Rightarrow> ''green''
      | blue \<Rightarrow> ''blue'' | red \<Rightarrow> ''red'' | pink \<Rightarrow> ''pink'' | purple \<Rightarrow> ''purple''
      | orange \<Rightarrow> ''orange'' | multi \<Rightarrow> ''multi'')"

definition styleName :: "StyleType \<Rightarrow> string" where
  "styleName s =
     (case s of streetwear \<Rightarrow> ''streetwear'' | casual \<Rightarrow> ''casual'' | athletic \<Rightarrow> ''athletic''
      | formal \<Rightarrow> ''formal'' | luxury \<Rightarrow> ''luxury'' | minimalist \<Rightarrow> ''minimalist'')"

text \<open>\<^verbatim>\<open>Array.prototype.join\<close>; an undefined element is rendered as the empty string.\<close>

fun join :: "string \<Rightarrow> string list \<Rightarrow> string" where
  "join sep [] = []"
| "join sep [x] = x"
| "join sep (x # y # ys) = x @ sep @ join sep (y # ys)"

text \<open>\<^verbatim>\<open>[...new Set(xs)]\<close>: the distinct elements in the order of their first occurrence.\<close>

definition uniqueInOrder :: "'a list \<Rightarrow> 'a list" where
  "uniqueInOrder xs = fold (\<lambda>x seen. if x \<in> set seen then seen else seen @ [x]) xs []"

definition generateReasoning :: "ScoreBreakdown \<Rightarrow> Product list \<Rightarrow> int \<Rightarrow> string" where
  "generateReasoning breakdown items totalPrice =
     (let reasons0 =
            (if color_harmony breakdown \<ge> 85 / 100 then
               (let dominantColors = take 2 (uniqueInOrder (map color_family items))
                in [''Excellent color harmony with ''
                      @ join '' and ''
                          (map (\<lambda>c. case c of None \<Rightarrow> [] | Some v \<Rightarrow> colorName v) dominantColors)
                      @ '' creating a cohesive palette''])
             else if color_harmony breakdown \<ge> 7 / 10 then
               [''Well-balanced color coordination throughout'']
             else []);
          reasons1 =
            (if style_match breakdown \<ge> 85 / 100 then
               reasons0 @
                 [''Strong ''
                    @ styleName (case items of [] \<Rightarrow> casual | i # _ \<Rightarrow> styleOf i)
                    @ '' aesthetic unity'']
             else if style_match breakdown \<ge> 7 / 10 then
               reasons0 @ [''Versatile style mix that transitions well'']
             else reasons0);
          reasons2 =
            (if (case brand_cohesion breakdown of None \<Rightarrow> False | Some cohesion \<Rightarrow> cohesion \<ge> 8 / 10)
             then reasons1 @ [''Matched brand positioning for a polished look'']
             else reasons1);
          reasons =
            (if price_balance breakdown \<ge> 8 / 10
             then reasons2 @ [''Balanced investment across all pieces'']
             else reasons2)
      in if length reasons > 0 then join ''. '' reasons @ ''.''
         else ''A versatile combination suitable for various occasions.'')"

subsection \<open>Item selection\<close>

text \<open>
  The score that \<^verbatim>\<open>selectBestItem\<close> gives to one candidate.  It is NaN when the tier of
  the candidate or of an item selected before is not a number: the sum of the tiers is then
  a string, and the average, the difference and the score are NaN.
\<close>

definition candidateScore :: "Product list \<Rightarrow> StyleType option \<Rightarrow> Product \<Rightarrow> rat option" where
  "candidateScore existingItems preferredStyle item =
     (let score0 =
            (if length existingItems > 0 then
               (let colorScore' =
                      fold (\<lambda>existing sum. sum + colorScore (colorOf item) (colorOf existing))
                        existingItems 0 / rat_of_nat (length existingItems)
                in colorScore' * (4 / 10))
             else 4 / 10);
          score1 =
            (if length existingItems > 0 then
               (let styleScore' =
                      fold (\<lambda>existing sum. sum + styleScore (styleOf item) (styleOf existing))
                        existingItems 0 / rat_of_nat (length existingItems)
                in score0 + styleScore' * (35 / 100))
             else case preferredStyle of
                    Some ps \<Rightarrow> score0 + styleScore (styleOf item) ps * (35 / 100)
                  | None \<Rightarrow> score0 + 35 / 100);
          score2 =
            (if length existingItems > 0 then
               (case (those (map brandTier existingItems), brandTier item) of
                  (Some tiers, Some itemTier) \<Rightarrow>
                    (let avgTier =
                           rat_of_int (fold (\<lambda>tier sum. sum + tier) tiers 0)
                             / rat_of_nat (length existingItems);
                         tierDiff = \<bar>avgTier - rat_of_int itemTier\<bar>
                     in Some (score1 + max 0 (1 - tierDiff / 3) * (15 / 100)))
                | _ \<Rightarrow> None)
             else Some (score1 + 15 / 100))
      in if ''bestseller'' \<in> set (tags item) then map_option (\<lambda>score. score + 1 / 10) score2
         else score2)"

text \<open>
  \<^verbatim>\<open>xs.sort((a, b) => b.score - a.score)\<close> on entries paired with their sort key.  A
  comparison with a NaN key yields NaN, which the sort takes as 0.  Without a NaN key the
  stable sort of the language orders the array by descending key.  With a NaN key the
  comparator is consistent only if all keys that are numbers are equal; every comparison is
  then 0 and the array stays as it is.  Otherwise the order is the one of the environment,
  read as a list of positions; a list that is not a rearrangement of the positions is not
  used.
\<close>

definition sortDescending :: "Env \<Rightarrow> ('a \<times> rat option) list \<Rightarrow> ('a \<times> rat option) list" where
  "sortDescending env xs =
     (let keys = map snd xs
      in if None \<notin> set keys then sort_key (\<lambda>(x, key). - the key) xs
         else if length (remdups (filter (\<lambda>key. key \<noteq> None) keys)) \<le> 1 then xs
         else
           let order = sort_order env keys
           in if mset order = mset [0..<length xs] then map (\<lambda>i. xs ! i) order else xs)"

text \<open>
  \<^verbatim>\<open>selectBestItem\<close>.  The second component of the result is the number of calls of
  \<^verbatim>\<open>Math.random\<close> made so far; \<^verbatim>\<open>topItems[randomIndex]?.item || null\<close> is \<open>None\<close> outside the
  slice.
\<close>

definition selectBestItem ::
  "Env \<Rightarrow> Product list \<Rightarrow> Product list \<Rightarrow> StyleType option \<Rightarrow> nat \<Rightarrow> Product option \<times> nat"
where
  "selectBestItem env candidates existingItems preferredStyle k =
     (if length candidates = 0 then (None, k)
      else
        let scoredItems =
              map (\<lambda>item. (item, candidateScore existingItems preferredStyle item)) candidates;
            sortedItems = sortDescending env scoredItems;
            topItems = take (min 3 (length sortedItems)) sortedItems;
            randomIndex = \<lfloor>random env k * rat_of_nat (length topItems)\<rfloor>
        in (if 0 \<le> randomIndex \<and> randomIndex < int (length topItems)
            then Some (fst (topItems ! nat randomIndex)) else None,
            k + 1))"

subsection \<open>The recommendation engine\<close>

record Pools =
  allTops :: "Product list"
  allBottoms :: "Product list"
  allFootwear :: "Product list"
  allAccessories :: "Product list"

text \<open>
  The state of the main loop: the outfits collected so far, each with its
  \<^verbatim>\<open>tempSortScore\<close>, the set \<^verbatim>\<open>usedCombinations\<close>, and the number of calls of
  \<^verbatim>\<open>Math.random\<close> made so far.
\<close>

record LoopState =
  st_outfits :: "(Outfit \<times> rat option) list"
  st_used :: "string set"
  st_rand :: nat

text \<open>\<^verbatim>\<open>Math.round\<close> rounds to the nearest integer, a half upwards.\<close>

definition Math_round :: "rat \<Rightarrow> int" where
  "Math_round x = \<lfloor>x + 1 / 2\<rfloor>"

text \<open>\<^verbatim>\<open>xs.slice(0, n)\<close>; a negative end counts from the end of the array.\<close>

definition slice0 :: "'a list \<Rightarrow> int \<Rightarrow> 'a list" where
  "slice0 xs n = (if n < 0 then take (nat (max (int (length xs) + n) 0)) xs else take (nat n) xs)"

text \<open>
  One of the three blocks \<^verbatim>\<open>if (!slot) { ... selectBestItem ... push }\<close> that fill the
  mandatory slots.
\<close>

definition fillSlot ::
  "Env \<Rightarrow> Product list \<Rightarrow> StyleType option \<Rightarrow> Product option \<Rightarrow> Product list \<Rightarrow> nat
   \<Rightarrow> Product option \<times> Product list \<times> nat"
where
  "fillSlot env pool preferredStyle slot selectedItems k =
     (case slot of
        Some p \<Rightarrow> (Some p, selectedItems, k)
      | None \<Rightarrow>
          let available = filter (\<lambda>t. t \<notin> set selectedItems) pool;
              (chosen, k') = selectBestItem env available selectedItems preferredStyle k
          in (chosen,
              (case chosen of None \<Rightarrow> selectedItems | Some x \<Rightarrow> selectedItems @ [x]),
              k'))"

definition combinationKey :: "Product \<Rightarrow> Product \<Rightarrow> Product \<Rightarrow> string" where
  "combinationKey topItem bottomItem shoe = sku_id topItem @ ''-'' @ sku_id bottomItem @ ''-'' @ sku_id shoe"

text \<open>The loop that adds \<open>numAccessories\<close> accessories; the state is \<open>(accessories, k)\<close>.\<close>

fun accessoryLoop ::
  "Env \<Rightarrow> Product list \<Rightarrow> Product list \<Rightarrow> StyleType option \<Rightarrow> nat
   \<Rightarrow> Product list \<times> nat \<Rightarrow> Product list \<times> nat"
where
  "accessoryLoop env availableAccessories selectedItems preferredStyle 0 acc = acc"
| "accessoryLoop env availableAccessories selectedItems preferredStyle (Suc n) (accs, k) =
     (let (accessory, k') =
            selectBestItem env (filter (\<lambda>a. a \<notin> set accs) availableAccessories)
              (selectedItems @ accs) preferredStyle k
      in accessoryLoop env availableAccessories selectedItems preferredStyle n
           (case accessory of None \<Rightarrow> accs | Some a \<Rightarrow> accs @ [a], k'))"

text \<open>
  The weighted overall score, with the weights of the source; it is NaN when the brand
  cohesion is.
\<close>

definition compositeScore :: "ScoreBreakdown \<Rightarrow> rat option" where
  "compositeScore breakdown =
     (case brand_cohesion breakdown of
        None \<Rightarrow> None
      | Some cohesion \<Rightarrow>
          Some (color_harmony breakdown * (35 / 100) +
                style_match breakdown * (30 / 100) +
                cohesion * (20 / 100) +
                price_balance breakdown * (0 / 100) +
                season_fit breakdown * (15 / 100)))"

text \<open>
  Lines "Calculate final scores" to the push of the outfit: the outfit record and the
  \<^verbatim>\<open>tempSortScore\<close> stored beside it.
\<close>

definition makeOutfit ::
  "RecommendationRequest \<Rightarrow> int \<times> rat \<Rightarrow> Product \<Rightarrow> Product \<Rightarrow> Product \<Rightarrow> Product list
   \<Rightarrow> Outfit \<times> rat option"
where
  "makeOutfit request newId topItem bottomItem shoe accs =
     (let allItems = [topItem, bottomItem, shoe] @ accs;
          totalPrice = fold (\<lambda>item sum. sum + lowest_price item) allItems 0;
          breakdown =
            \<lparr>color_harmony = calculateColorHarmony allItems,
             style_match = calculateStyleMatch allItems,
             brand_cohesion = calculateBrandCohesion allItems,
             price_balance = calculatePriceBalance allItems,
             season_fit = calculateSeasonFit allItems (req_season request)\<rparr>;
          matchScore = compositeScore breakdown;
          userDisplayScore = style_match breakdown;
          comprehensiveScore = matchScore
      in (\<lparr>ident = newId,
           top_item = topItem,
           bottom_item = bottomItem,
           footwear = shoe,
           accessories = accs,
           match_score = rat_of_int (Math_round (userDisplayScore * 100)) / 100,
           score_breakdown = breakdown,
           reasoning = generateReasoning breakdown allItems totalPrice,
           total_price = totalPrice\<rparr>,
          comprehensiveScore))"

text \<open>
  "Assign base product to its category": the three slots and \<^verbatim>\<open>selectedItems\<close> at the
  start of an attempt.  There is no branch for the category \<^verbatim>\<open>'accessories'\<close>.
\<close>

definition assignBase ::
  "string \<Rightarrow> Product \<Rightarrow> Product option \<times> Product option \<times> Product option \<times> Product list"
where
  "assignBase baseCategory baseProduct =
     (if baseCategory = ''tops'' then (Some baseProduct, None, None, [baseProduct])
      else if baseCategory = ''bottoms'' then (None, Some baseProduct, None, [baseProduct])
      else if baseCategory = ''footwear'' then (None, None, Some baseProduct, [baseProduct])
      else (None, None, None, []))"

text \<open>The body of the main loop, for one attempt.\<close>

definition attemptBody ::
  "Env \<Rightarrow> RecommendationRequest \<Rightarrow> Product \<Rightarrow> string \<Rightarrow> Pools \<Rightarrow> nat \<Rightarrow> LoopState \<Rightarrow> LoopState"
where
  "attemptBody env request baseProduct baseCategory pools attempt st =
     (let (top0, bottom0, shoe0, selected0) = assignBase baseCategory baseProduct;
          (topItem, selected1, k1) =
            fillSlot env (allTops pools) (preferred_style request) top0 selected0 (st_rand st);
          (bottomItem, selected2, k2) =
            fillSlot env (allBottoms pools) (preferred_style request) bottom0 selected1 k1;
          (shoe, selectedItems, k3) =
            fillSlot env (allFootwear pools) (preferred_style request) shoe0 selected2 k2
      in case (topItem, bottomItem, shoe) of
           (Some t, Some b, Some s) \<Rightarrow>
             if combinationKey t b s \<in> st_used st then st\<lparr>st_rand := k3\<rparr>
             else
               let numAccessories = 1 + attempt mod 2;
                   (accs, k4) =
                     accessoryLoop env (allAccessories pools) selectedItems
                       (preferred_style request) numAccessories ([], k3);
                   newId = (date_now env (length (st_outfits st)), random env k4)
               in \<lparr>st_outfits = st_outfits st @ [makeOutfit request newId t b s accs],
                   st_used = insert (combinationKey t b s) (st_used st),
                   st_rand = k4 + 1\<rparr>
         | _ \<Rightarrow> st\<lparr>st_rand := k3\<rparr>)"

text \<open>
  \<^verbatim>\<open>for (attempt = 0; attempt < numOutfits * 5 && outfits.length < numOutfits; attempt++)\<close>
\<close>

function generateLoop ::
  "Env \<Rightarrow> RecommendationRequest \<Rightarrow> Product \<Rightarrow> string \<Rightarrow> Pools \<Rightarrow> int \<Rightarrow> nat \<Rightarrow> LoopState
   \<Rightarrow> LoopState"
where
  "generateLoop env request baseProduct baseCategory pools numOutfits attempt st =
     (if int attempt < numOutfits * 5 \<and> int (length (st_outfits st)) < numOutfits
      then generateLoop env request baseProduct baseCategory pools numOutfits (attempt + 1)
             (attemptBody env request baseProduct baseCategory pools attempt st)
      else st)"
  by pat_completeness auto
termination
  by (relation "measure (\<lambda>(env, request, baseProduct, baseCategory, pools, numOutfits, attempt, st).
                  nat (numOutfits * 5 - int attempt))") auto

declare generateLoop.simps [simp del]

text \<open>The four pools, without the products of price 0.\<close>

definition pricedPools :: "Catalog \<Rightarrow> Pools" where
  "pricedPools cat =
     \<lparr>allTops = filter (\<lambda>p. lowest_price p > 0) (getProductsByCategory cat ''tops''),
      allBottoms = filter (\<lambda>p. lowest_price p > 0) (getProductsByCategory cat ''bottoms''),
      allFootwear = filter (\<lambda>p. lowest_price p > 0) (getProductsByCategory cat ''footwear''),
      allAccessories = filter (\<lambda>p. lowest_price p > 0) (getProductsByCategory cat ''accessories'')\<rparr>"

definition baseCategoryOf :: "Pools \<Rightarrow> Product \<Rightarrow> string" where
  "baseCategoryOf pools baseProduct =
     (if find (\<lambda>p. sku_id p = sku_id baseProduct) (allTops pools) \<noteq> None then ''tops''
      else if find (\<lambda>p. sku_id p = sku_id baseProduct) (allBottoms pools) \<noteq> None then ''bottoms''
      else if find (\<lambda>p. sku_id p = sku_id baseProduct) (allFootwear pools) \<noteq> None then ''footwear''
      else ''accessories'')"

text \<open>\<^verbatim>\<open>request.num_outfits || 3\<close>: an absent count and the count 0 both give 3.\<close>

definition numOutfitsOf :: "RecommendationRequest \<Rightarrow> int" where
  "numOutfitsOf request =
     (case num_outfits request of None \<Rightarrow> 3 | Some n \<Rightarrow> if n = 0 then 3 else n)"

definition generateOutfitRecommendations ::
  "Env \<Rightarrow> Catalog \<Rightarrow> RecommendationRequest \<Rightarrow> RecommendationResponse"
where
  "generateOutfitRecommendations env cat request =
     (let startTime = performance_now env 0
      in case getProductById cat (base_product_id request) of
           None \<Rightarrow>
             \<lparr>outfits = [],
              base_product = None,
              processing_time_ms = performance_now env 1 - startTime,
              cache_hit = False\<rparr>
         | Some baseProduct \<Rightarrow>
             let pools = pricedPools cat;
                 baseCategory = baseCategoryOf pools baseProduct;
                 numOutfits = numOutfitsOf request;
                 st = generateLoop env request baseProduct baseCategory pools numOutfits 0
                        \<lparr>st_outfits = [], st_used = {}, st_rand = 0\<rparr>;
                 sortedOutfits = sortDescending env (st_outfits st);
                 processingTime = performance_now env 1 - startTime
             in \<lparr>outfits = slice0 (map fst sortedOutfits) numOutfits,
                 base_product = Some baseProduct,
                 processing_time_ms = rat_of_int (Math_round (processingTime * 100)) / 100,
                 cache_hit = False\<rparr>)"

definition getBaseProductOptions :: "Catalog \<Rightarrow> Product list" where
  "getBaseProductOptions cat = filter (\<lambda>p. lowest_price p > 0) (products cat)"

subsection \<open>The catalog provider and the scenario catalogs\<close>

text \<open>
  Modelled from the spec: the catalog module \<^verbatim>\<open>@/data/products\<close>
  (\<^verbatim>\<open>products\<close>, \<^verbatim>\<open>getProductsByCategory\<close>, \<^verbatim>\<open>getProductById\<close>), which the specification
  describes as a provider backed by a static product list, with the lookups
  \<open>getProductsByCategory(category) \<rightarrow> sequence<Product>\<close> and
  \<open>getProductById(id) \<rightarrow> Product | not-found\<close>.
\<close>

definition catalogOf :: "Product list \<Rightarrow> Catalog" where
  "catalogOf ps =
     \<lparr>products = ps,
      getProductsByCategory = (\<lambda>c. filter (\<lambda>p. category p = c) ps),
      getProductById = (\<lambda>i. find (\<lambda>p. sku_id p = i) ps)\<rparr>"

text \<open>The products of the scenario of the specification, and one more accessory.\<close>

definition TOP_001 :: Product where
  "TOP_001 =
     \<lparr>sku_id = ''TOP_001'', title = ''Classic White Shirt'', brand_name = ''Basics'',
      category = ''tops'', lowest_price = 1000, color_family = Some white,
      style = Some casual, season = ''all'', tags = []\<rparr>"

definition BOTTOM_001 :: Product where
  "BOTTOM_001 =
     \<lparr>sku_id = ''BOTTOM_001'', title = ''Navy Chinos'', brand_name = ''Denim Co'',
      category = ''bottoms'', lowest_price = 1500, color_family = Some navy,
      style = Some casual, season = ''all'', tags = []\<rparr>"

definition SHOE_001 :: Product where
  "SHOE_001 =
     \<lparr>sku_id = ''SHOE_001'', title = ''White Sneakers'', brand_name = ''Nike'',
      category = ''footwear'', lowest_price = 2000, color_family = Some white,
      style = Some casual, season = ''all'', tags = []\<rparr>"

definition ACC_001 :: Product where
  "ACC_001 =
     \<lparr>sku_id = ''ACC_001'', title = ''Leather Watch'', brand_name = ''Casio'',
      category = ''accessories'', lowest_price = 500, color_family = Some black,
      style = Some casual, season = ''all'', tags = [''bestseller'']\<rparr>"

definition ACC_002 :: Product where
  "ACC_002 =
     \<lparr>sku_id = ''ACC_002'', title = ''Canvas Cap'', brand_name = ''Basics'',
      category = ''accessories'', lowest_price = 300, color_family = Some multi,
      style = Some athletic, season = ''all'', tags = []\<rparr>"

definition scenarioCatalog :: Catalog where
  "scenarioCatalog = catalogOf [TOP_001, BOTTOM_001, SHOE_001, ACC_001]"

definition twoAccessoryCatalog :: Catalog where
  "twoAccessoryCatalog = catalogOf [TOP_001, BOTTOM_001, SHOE_001, ACC_001, ACC_002]"

definition noAccessoryCatalog :: Catalog where
  "noAccessoryCatalog = catalogOf [TOP_001, BOTTOM_001, SHOE_001]"

definition noBottomCatalog :: Catalog where
  "noBottomCatalog = catalogOf [TOP_001, SHOE_001, ACC_001]"

text \<open>
  An environment whose random source always returns 0 (the selector then takes the
  best candidate) and whose clock advances by 1.234 ms during the call.
\<close>

definition env0 :: Env where
  "env0 =
     \<lparr>random = (\<lambda>k. 0),
      performance_now = (\<lambda>k. if k = 0 then 100 else 100 + 1234 / 1000),
      date_now = (\<lambda>k. 1700000000000),
      sort_order = (\<lambda>keys. [0..<length keys])\<rparr>"

definition requestFor :: "string \<Rightarrow> int option \<Rightarrow> RecommendationRequest" where
  "requestFor i n =
     \<lparr>base_product_id = i, preferred_style = None, req_season = None, num_outfits = n\<rparr>"

text \<open>
  The request of the scenario, and the outfit that the engine builds for it in \<open>env0\<close>.
\<close>

definition scenarioRequest :: RecommendationRequest where
  "scenarioRequest = requestFor ''TOP_001'' (Some 1)"

definition scenarioOutfit :: Outfit where
  "scenarioOutfit =
     fst (makeOutfit scenarioRequest (1700000000000, 0) TOP_001 BOTTOM_001 SHOE_001 [ACC_001])"

text \<open>The same request with the count 0.\<close>

definition zeroRequest :: RecommendationRequest where
  "zeroRequest = requestFor ''TOP_001'' (Some 0)"

text \<open>A request whose base product is an accessory.\<close>

definition accessoryRequest :: RecommendationRequest where
  "accessoryRequest = requestFor ''ACC_002'' (Some 1)"

text \<open>
  A catalog with a second pair of trousers, of the same description as the first, and an
  environment whose first random number is 1/2: the first attempt then takes the second of
  two candidates.
\<close>

definition BOTTOM_002 :: Product where
  "BOTTOM_002 =
     \<lparr>sku_id = ''BOTTOM_002'', title = ''Red Joggers'', brand_name = ''Nofomo'',
      category = ''bottoms'', lowest_price = 900, color_family = Some red,
      style = Some athletic, season = ''all'', tags = []\<rparr>"

definition twoBottomCatalog :: Catalog where
  "twoBottomCatalog = catalogOf [TOP_001, BOTTOM_001, BOTTOM_002, SHOE_001, ACC_001]"

definition env1 :: Env where
  "env1 =
     \<lparr>random = (\<lambda>k. if k = 0 then 1 / 2 else 0),
      performance_now = (\<lambda>k. if k = 0 then 100 else 100 + 1234 / 1000),
      date_now = (\<lambda>k. 1700000000000),
      sort_order = (\<lambda>keys. [0..<length keys])\<rparr>"

definition twoRequest :: RecommendationRequest where
  "twoRequest = requestFor ''TOP_001'' (Some 2)"

text \<open>
  A catalog provider that lists two one-piece suits both under tops and under bottoms, and
  an environment whose fourth random number is 1/2.
\<close>

definition SUIT_001 :: Product where
  "SUIT_001 =
     \<lparr>sku_id = ''SUIT_001'', title = ''Black Jumpsuit'', brand_name = ''Basics'',
      category = ''tops'', lowest_price = 3000, color_family = Some black,
      style = Some casual, season = ''all'', tags = []\<rparr>"

definition SUIT_002 :: Product where
  "SUIT_002 =
     \<lparr>sku_id = ''SUIT_002'', title = ''Black Overall'', brand_name = ''Basics'',
      category = ''bottoms'', lowest_price = 3000, color_family = Some black,
      style = Some casual, season = ''all'', tags = []\<rparr>"




text \<open>A catalog whose top is of the brand \<open>Constructor\<close>.\<close>

definition TOP_002 :: Product where
  "TOP_002 =
     \<lparr>sku_id = ''TOP_002'', title = ''Grey Hoodie'', brand_name = ''Constructor'',
      category = ''tops'', lowest_price = 1200, color_family = Some gray,
      style = Some streetwear, season = ''all'', tags = []\<rparr>"

definition constructorCatalog :: Catalog where
  "constructorCatalog = catalogOf [TOP_002, BOTTOM_001, SHOE_001, ACC_001]"

definition constructorRequest :: RecommendationRequest where
  "constructorRequest = requestFor ''TOP_002'' (Some 1)"

subsection \<open>Notions used to state the properties\<close>

text \<open>The values of the enumeration \<open>ColorFamily\<close>.\<close>

definition allColorFamilies :: "ColorFamily list" where
  "allColorFamilies =
     [black, white, gray, navy, brown, beige, cream, green, blue, red, pink, purple, orange, multi]"


text \<open>
  All unordered pairs of positions of a list, each once, the earlier item first: the
  pairs that a pairwise mean ranges over.
\<close>

fun allPairs :: "'a list \<Rightarrow> ('a \<times> 'a) list" where
  "allPairs [] = []"
| "allPairs (x # xs) = map (Pair x) xs @ allPairs xs"


text \<open>
  The contract of \<^verbatim>\<open>Math.random\<close>: every value it returns is at least 0 and less than 1.
\<close>

definition randomInRange :: "Env \<Rightarrow> bool" where
  "randomInRange env \<longleftrightarrow> (\<forall>k. 0 \<le> random env k \<and> random env k < 1)"

text \<open>
  Where the three mandatory items of an attempt come from: the base product, in the slot
  of its category, or the pool of the slot.
\<close>

definition slotsFrom :: "Product \<Rightarrow> string \<Rightarrow> Pools \<Rightarrow> Product \<Rightarrow> Product \<Rightarrow> Product \<Rightarrow> bool" where
  "slotsFrom baseProduct baseCategory pools t b s \<longleftrightarrow>
     (t = baseProduct \<and> baseCategory = ''tops'' \<or> t \<in> set (allTops pools)) \<and>
     (b = baseProduct \<and> baseCategory = ''bottoms'' \<or> b \<in> set (allBottoms pools)) \<and>
     (s = baseProduct \<and> baseCategory = ''footwear'' \<or> s \<in> set (allFootwear pools))"

text \<open>What the accessory loop guarantees about the accessories of an attempt.\<close>

definition accessoriesFrom :: "Env \<Rightarrow> Pools \<Rightarrow> nat \<Rightarrow> Product list \<Rightarrow> bool" where
  "accessoriesFrom env pools attempt accs \<longleftrightarrow>
     length accs \<le> 1 + attempt mod 2 \<and> set accs \<subseteq> set (allAccessories pools) \<and> distinct accs \<and>
     (randomInRange env \<and> allAccessories pools \<noteq> [] \<longrightarrow> accs \<noteq> [])"

text \<open>The deduplication key of a finished outfit: the key of its three mandatory items.\<close>

definition outfitKey :: "Outfit \<Rightarrow> string" where
  "outfitKey x = combinationKey (top_item x) (bottom_item x) (footwear x)"

text \<open>
  An entry of the loop's outfit list was produced by the block that scores and pushes an
  outfit, from mandatory items and accessories that an attempt selected.
\<close>

definition builtBy ::
  "Env \<Rightarrow> RecommendationRequest \<Rightarrow> Product \<Rightarrow> string \<Rightarrow> Pools \<Rightarrow> Outfit \<times> rat option \<Rightarrow> bool"
where
  "builtBy env request baseProduct baseCategory pools entry \<longleftrightarrow>
     (\<exists>newId t b s accs attempt.
        entry = makeOutfit request newId t b s accs \<and>
        slotsFrom baseProduct baseCategory pools t b s \<and>
        accessoriesFrom env pools attempt accs)"

text \<open>The invariant of the main loop.\<close>

definition loopInv ::
  "Env \<Rightarrow> RecommendationRequest \<Rightarrow> Product \<Rightarrow> string \<Rightarrow> Pools \<Rightarrow> LoopState \<Rightarrow> bool"
where
  "loopInv env request baseProduct baseCategory pools st \<longleftrightarrow>
     list_all (builtBy env request baseProduct baseCategory pools) (st_outfits st) \<and>
     distinct (map (\<lambda>entry. outfitKey (fst entry)) (st_outfits st)) \<and>
     (\<lambda>entry. outfitKey (fst entry)) ` set (st_outfits st) \<subseteq> st_used st"


text \<open>
  The three mandatory pools are disjoint: no identifier occurs in two of them.  This holds
  for a catalog with unique identifiers that gives every product one category.
\<close>

definition poolsDisjoint :: "Pools \<Rightarrow> bool" where
  "poolsDisjoint pools \<longleftrightarrow>
     sku_id ` set (allTops pools) \<inter> sku_id ` set (allBottoms pools) = {} \<and>
     sku_id ` set (allTops pools) \<inter> sku_id ` set (allFootwear pools) = {} \<and>
     sku_id ` set (allBottoms pools) \<inter> sku_id ` set (allFootwear pools) = {}"

text \<open>
  The first attempt can fill its mandatory slots: every slot other than the base
  product's own has a candidate in its pool that is not the base product and not in a pool
  that is filled before it.
\<close>

definition canFill :: "Product \<Rightarrow> string \<Rightarrow> Pools \<Rightarrow> bool" where
  "canFill baseProduct baseCategory pools \<longleftrightarrow>
     (baseCategory = ''tops'' \<or> (\<exists>p \<in> set (allTops pools). p \<noteq> baseProduct)) \<and>
     (baseCategory = ''bottoms'' \<or>
        (\<exists>p \<in> set (allBottoms pools). p \<noteq> baseProduct \<and> p \<notin> set (allTops pools))) \<and>
     (baseCategory = ''footwear'' \<or>
        (\<exists>p \<in> set (allFootwear pools).
           p \<noteq> baseProduct \<and> p \<notin> set (allTops pools) \<and> p \<notin> set (allBottoms pools)))"

text \<open>
  A product whose brand is not the name of an inherited property, so that its tier is a
  number; and a request for which this holds of the base product and of all products of the
  priced pools.
\<close>

definition plainBrand :: "Product \<Rightarrow> bool" where
  "plainBrand p \<longleftrightarrow> \<not> inheritedProperty (toLowerCase (brand_name p))"

definition plainBrands :: "Catalog \<Rightarrow> RecommendationRequest \<Rightarrow> bool" where
  "plainBrands cat request \<longleftrightarrow>
     (case getProductById cat (base_product_id request) of
        None \<Rightarrow> True
      | Some baseProduct \<Rightarrow> plainBrand baseProduct) \<and>
     list_all plainBrand
       (allTops (pricedPools cat) @ allBottoms (pricedPools cat) @
        allFootwear (pricedPools cat) @ allAccessories (pricedPools cat))"

text \<open>The identifiers of the three mandatory items of an outfit, in slot order.\<close>

definition slotTriple :: "Outfit \<Rightarrow> string \<times> string \<times> string" where
  "slotTriple x = (sku_id (top_item x), sku_id (bottom_item x), sku_id (footwear x))"

section \<open>Properties\<close>

subsection \<open>The matrices\<close>

lemma allColorFamilies_complete: "c \<in> set allColorFamilies"
  by (cases c) (simp_all add: allColorFamilies_def)

lemma color_matrix_checked:
  "list_all (\<lambda>a. list_all (\<lambda>b.
       colorLookup a b = colorLookup b a \<and> colorLookup a b \<noteq> None \<and>
       0 \<le> colorScore a b \<and> colorScore a b \<le> 1) allColorFamilies) allColorFamilies"
  by code_simp

lemma color_matrix_facts:
  "colorLookup a b = colorLookup b a \<and> colorLookup a b \<noteq> None \<and>
   0 \<le> colorScore a b \<and> colorScore a b \<le> 1"
  using color_matrix_checked allColorFamilies_complete[of a] allColorFamilies_complete[of b]
  unfolding list_all_iff by blast

lemma colorScore_bounds: "0 \<le> colorScore a b \<and> colorScore a b \<le> 1"
  using color_matrix_facts[of a b] by simp

lemma styleLookup_sym: "styleLookup a b = styleLookup b a"
  by (cases a; cases b; simp add: styleLookup_def STYLE_COMPATIBILITY_def)

lemma styleLookup_total: "styleLookup a b \<noteq> None"
  by (cases a; cases b; simp add: styleLookup_def STYLE_COMPATIBILITY_def)

lemma styleScore_bounds: "0 \<le> styleScore a b \<and> styleScore a b \<le> 1"
  by (cases a; cases b; simp add: styleScore_def styleLookup_def STYLE_COMPATIBILITY_def)

lemma fold_pair_acc:
  "fold (\<lambda>y (t, c). (t + g y, Suc c)) ys (t0, c0) = (t0 + sum_list (map g ys), c0 + length ys)"
  by (induction ys arbitrary: t0 c0) (simp_all add: algebra_simps)

lemma colorPairs_sum:
  "colorPairs xs (t0, c0) =
     (t0 + sum_list (map (\<lambda>(p, q). colorScore (colorOf p) (colorOf q)) (allPairs xs)),
      c0 + length (allPairs xs))"
  by (induction xs arbitrary: t0 c0) (simp_all add: fold_pair_acc comp_def algebra_simps)

lemma stylePairs_sum:
  "stylePairs xs (t0, c0) =
     (t0 + sum_list (map (\<lambda>(p, q). styleScore (styleOf p) (styleOf q)) (allPairs xs)),
      c0 + length (allPairs xs))"
  by (induction xs arbitrary: t0 c0) (simp_all add: fold_pair_acc comp_def algebra_simps)

lemma sum_list_unit_bounds:
  fixes g :: "'a \<Rightarrow> rat"
  assumes "\<And>x. 0 \<le> g x \<and> g x \<le> 1"
  shows "0 \<le> sum_list (map g xs) \<and> sum_list (map g xs) \<le> rat_of_nat (length xs)"
proof (induction xs)
  case Nil
  show ?case by simp
next
  case (Cons x xs)
  from assms[of x] Cons show ?case by simp
qed

lemma mean_unit_bounds:
  fixes t :: rat
  assumes "0 \<le> t" "t \<le> rat_of_nat n"
  shows "0 \<le> t / rat_of_nat n \<and> t / rat_of_nat n \<le> 1"
proof (cases "n = 0")
  case True
  then show ?thesis by simp
next
  case False
  then have "0 < rat_of_nat n" by simp
  with assms show ?thesis by (simp add: divide_le_eq)
qed

lemma calculateColorHarmony_mean:
  "calculateColorHarmony items =
     (if length items < 2 then 5 / 10
      else sum_list (map (\<lambda>(p, q). colorScore (colorOf p) (colorOf q)) (allPairs items))
             / rat_of_nat (length (allPairs items)))"
proof (cases items)
  case Nil
  then show ?thesis by (simp add: calculateColorHarmony_def)
next
  case (Cons x xs)
  then show ?thesis
    by (cases xs) (simp_all add: calculateColorHarmony_def colorPairs_sum)
qed

lemma calculateColorHarmony_bounds:
  "0 \<le> calculateColorHarmony items \<and> calculateColorHarmony items \<le> 1"
proof -
  let ?g = "\<lambda>(p, q). colorScore (colorOf p) (colorOf q)"
  have g: "\<And>x. 0 \<le> ?g x \<and> ?g x \<le> 1"
    using colorScore_bounds by (simp add: split_def)
  have "0 \<le> sum_list (map ?g (allPairs items)) \<and>
        sum_list (map ?g (allPairs items)) \<le> rat_of_nat (length (allPairs items))"
    by (rule sum_list_unit_bounds) (rule g)
  then show ?thesis
    using mean_unit_bounds[of "sum_list (map ?g (allPairs items))" "length (allPairs items)"]
    by (simp add: calculateColorHarmony_def colorPairs_sum)
qed

lemma calculateStyleMatch_bounds:
  "0 \<le> calculateStyleMatch items \<and> calculateStyleMatch items \<le> 1"
proof -
  let ?g = "\<lambda>(p, q). styleScore (styleOf p) (styleOf q)"
  have g: "\<And>x. 0 \<le> ?g x \<and> ?g x \<le> 1"
    using styleScore_bounds by (simp add: split_def)
  have "0 \<le> sum_list (map ?g (allPairs items)) \<and>
        sum_list (map ?g (allPairs items)) \<le> rat_of_nat (length (allPairs items))"
    by (rule sum_list_unit_bounds) (rule g)
  then show ?thesis
    using mean_unit_bounds[of "sum_list (map ?g (allPairs items))" "length (allPairs items)"]
    by (simp add: calculateStyleMatch_def stylePairs_sum)
qed

lemma fold_add_nonneg:
  fixes a :: rat
  assumes "0 \<le> a" "\<And>x. 0 \<le> g x"
  shows "0 \<le> fold (\<lambda>x s. s + g x) xs a"
  using assms(1)
proof (induction xs arbitrary: a)
  case Nil
  then show ?case by simp
next
  case (Cons x xs)
  show ?case using Cons.IH[of "a + g x"] Cons.prems assms(2)[of x] by simp
qed

lemma one_minus_nonneg_bounds:
  fixes v :: rat
  assumes "0 \<le> v"
  shows "0 \<le> max 0 (1 - v) \<and> max 0 (1 - v) \<le> 1"
  using assms by simp

lemma calculateBrandCohesion_bounds:
  assumes "calculateBrandCohesion items = Some v"
  shows "0 \<le> v \<and> v \<le> 1"
proof -
  from assms obtain tiers where t: "those (map brandTier items) = Some tiers"
    by (auto simp: calculateBrandCohesion_def split: option.splits)
  define avg where "avg = rat_of_int (fold (\<lambda>b a. a + b) tiers 0) / rat_of_nat (length tiers)"
  define w where "w = fold (\<lambda>tier sum. sum + (rat_of_int tier - avg) ^ 2) tiers 0
                        / rat_of_nat (length tiers)"
  have "0 \<le> fold (\<lambda>tier sum. sum + (rat_of_int tier - avg) ^ 2) tiers 0"
    by (rule fold_add_nonneg) simp_all
  then have "0 \<le> w / 4" by (simp add: w_def)
  then have "0 \<le> max 0 (1 - w / 4) \<and> max 0 (1 - w / 4) \<le> 1"
    by (rule one_minus_nonneg_bounds)
  moreover from assms t have "v = max 0 (1 - w / 4)"
    by (simp add: calculateBrandCohesion_def Let_def avg_def w_def split: if_splits)
  ultimately show ?thesis by simp
qed

text \<open>The tiers of products whose brands are no inherited property names are numbers.\<close>

lemma brandTier_plain: "plainBrand p \<Longrightarrow> brandTier p \<noteq> None"
  by (simp add: brandTier_def plainBrand_def Let_def split: option.splits)

lemma brandTier_inherited:
  "inheritedProperty (toLowerCase (brand_name p)) \<Longrightarrow> brandTier p = None"
  by (auto simp: brandTier_def inheritedProperty_def BRAND_TIERS_def Let_def)

lemma those_all_Some: "None \<notin> set xs \<Longrightarrow> those xs = Some (map the xs)"
proof (induction xs)
  case Nil
  show ?case by simp
next
  case (Cons a xs)
  then obtain y where "a = Some y" by (cases a) auto
  with Cons show ?case by simp
qed

lemma those_Some_length: "those xs = Some ys \<Longrightarrow> length ys = length xs"
  by (induction xs arbitrary: ys) (auto split: option.splits)

lemma those_None_iff: "those xs = None \<longleftrightarrow> None \<in> set xs"
  by (induction xs) (auto split: option.splits)

lemma calculateBrandCohesion_plain:
  assumes "items \<noteq> []" "\<And>p. p \<in> set items \<Longrightarrow> plainBrand p"
  shows "calculateBrandCohesion items \<noteq> None"
proof -
  have "those (map brandTier items) = Some (map the (map brandTier items))"
    by (rule those_all_Some) (use assms(2) brandTier_plain in force)
  with assms(1) show ?thesis by (simp add: calculateBrandCohesion_def Let_def)
qed

lemma calculateBrandCohesion_inherited:
  assumes "p \<in> set items" "inheritedProperty (toLowerCase (brand_name p))"
  shows "calculateBrandCohesion items = None"
proof -
  from assms have "None \<in> set (map brandTier items)"
    using brandTier_inherited[OF assms(2)] by (metis image_eqI list.set_map)
  then have "those (map brandTier items) = None" by (simp only: those_None_iff)
  then show ?thesis by (simp add: calculateBrandCohesion_def)
qed

lemma calculatePriceBalance_bounds:
  "0 \<le> calculatePriceBalance items \<and> calculatePriceBalance items \<le> 1"
proof -
  define prices where "prices = filter (\<lambda>p. p > 0) (map lowest_price items)"
  define avg where "avg = rat_of_int (fold (\<lambda>b a. a + b) prices 0) / rat_of_nat (length prices)"
  define v where "v = fold (\<lambda>p sum. sum + ((rat_of_int p - avg) / avg) ^ 2) prices 0
                        / rat_of_nat (length prices)"
  have "0 \<le> fold (\<lambda>p sum. sum + ((rat_of_int p - avg) / avg) ^ 2) prices 0"
    by (rule fold_add_nonneg) simp_all
  then have "0 \<le> v" by (simp add: v_def)
  then have "0 \<le> max 0 (1 - v) \<and> max 0 (1 - v) \<le> 1"
    by (rule one_minus_nonneg_bounds)
  then show ?thesis
    by (simp add: calculatePriceBalance_def Let_def prices_def avg_def v_def)
qed

lemma calculateSeasonFit_bounds:
  "0 \<le> calculateSeasonFit items targetSeason \<and> calculateSeasonFit items targetSeason \<le> 1"
proof -
  have "0 \<le> rat_of_nat (length (filter P items)) / rat_of_nat (length items) \<and>
        rat_of_nat (length (filter P items)) / rat_of_nat (length items) \<le> 1" for P
    by (rule mean_unit_bounds) simp_all
  then show ?thesis by (simp add: calculateSeasonFit_def Let_def)
qed

lemma round2_bounds:
  fixes s :: rat
  assumes "0 \<le> s" "s \<le> 1"
  shows "0 \<le> rat_of_int (Math_round (s * 100)) / 100 \<and> rat_of_int (Math_round (s * 100)) / 100 \<le> 1"
proof -
  have "0 \<le> \<lfloor>s * 100 + 1 / 2\<rfloor>" using assms by simp
  moreover have "\<lfloor>s * 100 + 1 / 2\<rfloor> \<le> 100"
  proof -
    have "s * 100 + 1 / 2 < 101" using assms by simp
    then have "\<lfloor>s * 100 + 1 / 2\<rfloor> < 101" by (simp add: floor_less_iff)
    then show ?thesis by simp
  qed
  ultimately show ?thesis by (simp add: Math_round_def)
qed


text \<open>The sort rearranges the array, whatever its comparator does.\<close>

lemma mset_sortDescending: "mset (sortDescending env xs) = mset xs"
proof -
  have "mset (map (\<lambda>i. xs ! i) order) = mset xs" if "mset order = mset [0..<length xs]" for order
  proof -
    have "mset (map (\<lambda>i. xs ! i) order) = image_mset (\<lambda>i. xs ! i) (mset order)" by simp
    also have "\<dots> = image_mset (\<lambda>i. xs ! i) (mset [0..<length xs])" by (simp only: that)
    also have "\<dots> = mset (map (\<lambda>i. xs ! i) [0..<length xs])" by simp
    also have "\<dots> = mset xs" by (simp only: map_nth)
    finally show ?thesis .
  qed
  then show ?thesis by (simp add: sortDescending_def Let_def)
qed

lemma set_sortDescending: "set (sortDescending env xs) = set xs"
  using mset_sortDescending[of env xs] by (metis set_mset_mset)

lemma length_sortDescending: "length (sortDescending env xs) = length xs"
  using mset_sortDescending[of env xs] by (metis size_mset)

lemma sortDescending_numbers:
  "None \<notin> snd ` set xs \<Longrightarrow> sortDescending env xs = sort_key (\<lambda>(x, key). - the key) xs"
  by (simp add: sortDescending_def)

lemma sortDescending_Nil: "sortDescending env [] = []"
  by (simp add: sortDescending_def)

lemma sortDescending_single: "sortDescending env [x] = [x]"
  by (cases "snd x") (simp_all add: sortDescending_def Let_def)

lemma selectBestItem_empty: "selectBestItem env [] ex pref k = (None, k)"
  by (simp add: selectBestItem_def)

lemma selectBestItem_counter:
  "snd (selectBestItem env cs ex pref k) = (if cs = [] then k else Suc k)"
  by (simp add: selectBestItem_def Let_def)

lemma selectBestItem_Some_mem:
  assumes "fst (selectBestItem env cs ex pref k) = Some p"
  shows "p \<in> set cs"
proof -
  define scored where "scored = map (\<lambda>item. (item, candidateScore ex pref item)) cs"
  define top3 where "top3 = take (min 3 (length (sortDescending env scored)))
                              (sortDescending env scored)"
  define i where "i = \<lfloor>random env k * rat_of_nat (length top3)\<rfloor>"
  from assms have ne: "cs \<noteq> []" by (auto simp: selectBestItem_def)
  from assms ne have sel: "0 \<le> i \<and> i < int (length top3) \<and> p = fst (top3 ! nat i)"
    by (simp add: selectBestItem_def Let_def scored_def top3_def i_def split: if_splits)
  then have "nat i < length top3" by linarith
  then have "top3 ! nat i \<in> set top3" by (rule nth_mem)
  then have "top3 ! nat i \<in> set (sortDescending env scored)"
    unfolding top3_def by (auto dest: in_set_takeD)
  then have "top3 ! nat i \<in> set scored" by (simp only: set_sortDescending)
  then show ?thesis using sel by (auto simp: scored_def)
qed

lemma selectBestItem_in_range:
  assumes "cs \<noteq> []" "0 \<le> random env k" "random env k < 1"
  shows "\<exists>p. fst (selectBestItem env cs ex pref k) = Some p"
proof -
  define scored where "scored = map (\<lambda>item. (item, candidateScore ex pref item)) cs"
  define top3 where "top3 = take (min 3 (length (sortDescending env scored)))
                              (sortDescending env scored)"
  define i where "i = \<lfloor>random env k * rat_of_nat (length top3)\<rfloor>"
  have len: "0 < length top3"
    using assms(1) by (simp add: top3_def scored_def length_sortDescending)
  have "0 \<le> random env k * rat_of_nat (length top3)" using assms(2) by simp
  then have i0: "0 \<le> i" by (simp add: i_def)
  have "random env k * rat_of_nat (length top3) < rat_of_nat (length top3)"
    using assms(3) len by simp
  then have "i < int (length top3)"
    unfolding i_def by (simp add: floor_less_iff)
  with i0 assms(1) show ?thesis
    by (simp add: selectBestItem_def Let_def scored_def top3_def i_def)
qed

lemma fillSlot_filled: "fillSlot env pool pref (Some p) sel k = (Some p, sel, k)"
  by (simp add: fillSlot_def)

lemma fillSlot_empty_result:
  assumes "fillSlot env pool pref None sel k = (r, sel', k')"
  shows "(r = None \<and> sel' = sel) \<or> (\<exists>x. r = Some x \<and> x \<in> set pool \<and> x \<notin> set sel \<and> sel' = sel @ [x])"
proof -
  define avail where "avail = filter (\<lambda>t. t \<notin> set sel) pool"
  obtain c k1 where s: "selectBestItem env avail sel pref k = (c, k1)" by (cases "selectBestItem env avail sel pref k")
  from assms s have r: "r = c" and sel': "sel' = (case c of None \<Rightarrow> sel | Some x \<Rightarrow> sel @ [x])"
    by (auto simp: fillSlot_def avail_def)
  show ?thesis
  proof (cases c)
    case None
    with r sel' show ?thesis by simp
  next
    case (Some x)
    with s have "fst (selectBestItem env avail sel pref k) = Some x" by simp
    then have "x \<in> set avail" by (rule selectBestItem_Some_mem)
    with Some r sel' show ?thesis by (simp add: avail_def)
  qed
qed

lemma fillSlot_succeeds:
  assumes "randomInRange env" "x \<in> set pool" "x \<notin> set sel"
  shows "\<exists>y. fst (fillSlot env pool pref None sel k) = Some y"
proof -
  define avail where "avail = filter (\<lambda>t. t \<notin> set sel) pool"
  have "avail \<noteq> []" using assms(2,3) by (auto simp: avail_def filter_empty_conv)
  moreover have "0 \<le> random env k" "random env k < 1"
    using assms(1) by (simp_all add: randomInRange_def)
  ultimately obtain y where "fst (selectBestItem env avail sel pref k) = Some y"
    using selectBestItem_in_range by blast
  then show ?thesis
    by (cases "selectBestItem env avail sel pref k") (simp add: fillSlot_def avail_def)
qed

lemma accessoryLoop_props:
  assumes "accessoryLoop env avail sel pref n (accs, k) = (accs', k')"
  shows "length accs \<le> length accs' \<and> length accs' \<le> length accs + n \<and>
         set accs' \<subseteq> set accs \<union> set avail \<and> (distinct accs \<longrightarrow> distinct accs')"
  using assms
proof (induction n arbitrary: accs k)
  case 0
  then show ?case by simp
next
  case (Suc n)
  define cand where "cand = filter (\<lambda>a. a \<notin> set accs) avail"
  obtain c k1 where s: "selectBestItem env cand (sel @ accs) pref k = (c, k1)"
    by (cases "selectBestItem env cand (sel @ accs) pref k")
  define accs1 where "accs1 = (case c of None \<Rightarrow> accs | Some a \<Rightarrow> accs @ [a])"
  from Suc.prems s have rec: "accessoryLoop env avail sel pref n (accs1, k1) = (accs', k')"
    by (simp add: cand_def accs1_def)
  have step: "length accs \<le> length accs1 \<and> length accs1 \<le> length accs + 1 \<and>
              set accs1 \<subseteq> set accs \<union> set avail \<and> (distinct accs \<longrightarrow> distinct accs1)"
  proof (cases c)
    case None
    then show ?thesis by (simp add: accs1_def)
  next
    case (Some a)
    with s have "fst (selectBestItem env cand (sel @ accs) pref k) = Some a" by simp
    then have "a \<in> set cand" by (rule selectBestItem_Some_mem)
    with Some show ?thesis by (auto simp: accs1_def cand_def)
  qed
  from Suc.IH[OF rec] step show ?case by auto
qed

lemma accessoryLoop_nonempty:
  assumes "randomInRange env" "avail \<noteq> []"
  shows "fst (accessoryLoop env avail sel pref (Suc n) ([], k)) \<noteq> []"
proof -
  have r: "0 \<le> random env k" "random env k < 1"
    using assms(1) by (simp_all add: randomInRange_def)
  obtain a where a: "fst (selectBestItem env avail sel pref k) = Some a"
    using selectBestItem_in_range[OF assms(2) r] by blast
  obtain k1 where s: "selectBestItem env avail sel pref k = (Some a, k1)"
    using a by (cases "selectBestItem env avail sel pref k") simp
  obtain accs' k' where res: "accessoryLoop env avail sel pref n ([a], k1) = (accs', k')"
    by (cases "accessoryLoop env avail sel pref n ([a], k1)")
  from accessoryLoop_props[OF res] have "accs' \<noteq> []" by auto
  with s res show ?thesis by simp
qed

lemma generateLoop_invariant:
  assumes "P st"
    and "\<And>a s. P s \<Longrightarrow> P (attemptBody env request baseProduct baseCategory pools a s)"
  shows "P (generateLoop env request baseProduct baseCategory pools n a st)"
  using assms
proof (induction env request baseProduct baseCategory pools n a st rule: generateLoop.induct)
  case (1 env request baseProduct baseCategory pools numOutfits attempt st)
  show ?case
  proof (cases "int attempt < numOutfits * 5 \<and> int (length (st_outfits st)) < numOutfits")
    case True
    have "P (attemptBody env request baseProduct baseCategory pools attempt st)"
      using "1.prems"(1) by (rule "1.prems"(2))
    from "1.IH"[OF True this "1.prems"(2)] True show ?thesis
      by (subst generateLoop.simps) simp
  next
    case False
    then show ?thesis using "1.prems"(1) by (subst generateLoop.simps) auto
  qed
qed

lemma fillSlot_result:
  assumes "fillSlot env pool pref slot sel k = (Some x, sel', k')"
  shows "slot = Some x \<or> (slot = None \<and> x \<in> set pool)"
proof (cases slot)
  case None
  with assms fillSlot_empty_result[of env pool pref sel k "Some x" sel' k'] show ?thesis by auto
next
  case (Some p)
  with assms show ?thesis by (simp add: fillSlot_def)
qed

lemma assignBase_slots:
  assumes "assignBase baseCategory baseProduct = (top0, bottom0, shoe0, sel0)"
  shows "(top0 = None \<or> top0 = Some baseProduct \<and> baseCategory = ''tops'') \<and>
         (bottom0 = None \<or> bottom0 = Some baseProduct \<and> baseCategory = ''bottoms'') \<and>
         (shoe0 = None \<or> shoe0 = Some baseProduct \<and> baseCategory = ''footwear'')"
  using assms by (auto simp: assignBase_def split: if_splits)

lemma attemptBody_cases:
  fixes env request baseProduct baseCategory pools attempt st
  defines "st' \<equiv> attemptBody env request baseProduct baseCategory pools attempt st"
  shows "(st_outfits st' = st_outfits st \<and> st_used st' = st_used st) \<or>
         (\<exists>newId t b s accs.
            st_outfits st' = st_outfits st @ [makeOutfit request newId t b s accs] \<and>
            st_used st' = insert (combinationKey t b s) (st_used st) \<and>
            combinationKey t b s \<notin> st_used st \<and>
            slotsFrom baseProduct baseCategory pools t b s \<and>
            accessoriesFrom env pools attempt accs)"
proof -
  obtain top0 bottom0 shoe0 sel0 where
    ab: "assignBase baseCategory baseProduct = (top0, bottom0, shoe0, sel0)"
    by (metis prod_cases4)
  obtain r1 sel1 k1 where
    f1: "fillSlot env (allTops pools) (preferred_style request) top0 sel0 (st_rand st) = (r1, sel1, k1)"
    by (metis prod_cases3)
  obtain r2 sel2 k2 where
    f2: "fillSlot env (allBottoms pools) (preferred_style request) bottom0 sel1 k1 = (r2, sel2, k2)"
    by (metis prod_cases3)
  obtain r3 sel3 k3 where
    f3: "fillSlot env (allFootwear pools) (preferred_style request) shoe0 sel2 k2 = (r3, sel3, k3)"
    by (metis prod_cases3)
  show ?thesis
  proof (cases "\<exists>t b s. r1 = Some t \<and> r2 = Some b \<and> r3 = Some s \<and> combinationKey t b s \<notin> st_used st")
    case False
    then have "st' = st\<lparr>st_rand := k3\<rparr>"
      unfolding st'_def attemptBody_def
      by (cases r1; cases r2; cases r3) (auto simp: ab f1 f2 f3)
    then show ?thesis by simp
  next
    case True
    then obtain t b s where
      r: "r1 = Some t" "r2 = Some b" "r3 = Some s" and fresh: "combinationKey t b s \<notin> st_used st"
      by blast
    obtain accs k4 where
      al: "accessoryLoop env (allAccessories pools) sel3 (preferred_style request)
             (Suc (attempt mod 2)) ([], k3) = (accs, k4)"
      by (cases "accessoryLoop env (allAccessories pools) sel3 (preferred_style request)
             (Suc (attempt mod 2)) ([], k3)")
    have st': "st' = \<lparr>st_outfits = st_outfits st @
                  [makeOutfit request (date_now env (length (st_outfits st)), random env k4) t b s accs],
                st_used = insert (combinationKey t b s) (st_used st),
                st_rand = k4 + 1\<rparr>"
      unfolding st'_def attemptBody_def using fresh
      by (simp add: ab f1 f2 f3 r al del: accessoryLoop.simps)
    have slots: "slotsFrom baseProduct baseCategory pools t b s"
      using assignBase_slots[OF ab]
        fillSlot_result[OF f1[unfolded r]] fillSlot_result[OF f2[unfolded r]]
        fillSlot_result[OF f3[unfolded r]]
      unfolding slotsFrom_def by auto
    have "accessoriesFrom env pools attempt accs"
    proof -
      from accessoryLoop_props[OF al]
      have "length accs \<le> 1 + attempt mod 2" "set accs \<subseteq> set (allAccessories pools)" "distinct accs"
        by auto
      moreover have "accs \<noteq> []" if "randomInRange env" "allAccessories pools \<noteq> []"
        using accessoryLoop_nonempty[OF that, of sel3 "preferred_style request" "attempt mod 2" k3] al
        by simp
      ultimately show ?thesis unfolding accessoriesFrom_def by blast
    qed
    then have "st_outfits st' = st_outfits st @
                  [makeOutfit request (date_now env (length (st_outfits st)), random env k4) t b s accs] \<and>
            st_used st' = insert (combinationKey t b s) (st_used st) \<and>
            combinationKey t b s \<notin> st_used st \<and>
            slotsFrom baseProduct baseCategory pools t b s \<and>
            accessoriesFrom env pools attempt accs"
      using st' fresh slots by simp
    then show ?thesis by blast
  qed
qed

lemma makeOutfit_fields:
  "top_item (fst (makeOutfit request newId t b s accs)) = t"
  "bottom_item (fst (makeOutfit request newId t b s accs)) = b"
  "footwear (fst (makeOutfit request newId t b s accs)) = s"
  "accessories (fst (makeOutfit request newId t b s accs)) = accs"
  by (simp_all add: makeOutfit_def Let_def)

lemma makeOutfit_scores:
  "score_breakdown (fst (makeOutfit request newId t b s accs)) =
     \<lparr>color_harmony = calculateColorHarmony ([t, b, s] @ accs),
      style_match = calculateStyleMatch ([t, b, s] @ accs),
      brand_cohesion = calculateBrandCohesion ([t, b, s] @ accs),
      price_balance = calculatePriceBalance ([t, b, s] @ accs),
      season_fit = calculateSeasonFit ([t, b, s] @ accs) (req_season request)\<rparr>"
  "match_score (fst (makeOutfit request newId t b s accs)) =
     rat_of_int (Math_round
       (style_match (score_breakdown (fst (makeOutfit request newId t b s accs))) * 100)) / 100"
  "snd (makeOutfit request newId t b s accs) =
     compositeScore (score_breakdown (fst (makeOutfit request newId t b s accs)))"
  by (simp_all add: makeOutfit_def Let_def)

lemma outfitKey_makeOutfit:
  "outfitKey (fst (makeOutfit request newId t b s accs)) = combinationKey t b s"
  by (simp add: outfitKey_def makeOutfit_fields)

lemma loopInv_attempt:
  assumes "loopInv env request baseProduct baseCategory pools st"
  shows "loopInv env request baseProduct baseCategory pools
           (attemptBody env request baseProduct baseCategory pools attempt st)"
proof -
  let ?st' = "attemptBody env request baseProduct baseCategory pools attempt st"
  from attemptBody_cases[of env request baseProduct baseCategory pools attempt st]
  consider (skip) "st_outfits ?st' = st_outfits st" "st_used ?st' = st_used st"
    | (push) newId t b s accs where
        "st_outfits ?st' = st_outfits st @ [makeOutfit request newId t b s accs]"
        "st_used ?st' = insert (combinationKey t b s) (st_used st)"
        "combinationKey t b s \<notin> st_used st"
        "slotsFrom baseProduct baseCategory pools t b s"
        "accessoriesFrom env pools attempt accs"
    by blast
  then show ?thesis
  proof cases
    case skip
    with assms show ?thesis by (simp add: loopInv_def)
  next
    case push
    have built: "builtBy env request baseProduct baseCategory pools (makeOutfit request newId t b s accs)"
      unfolding builtBy_def using push(4,5) by blast
    have fresh: "combinationKey t b s \<notin> (\<lambda>entry. outfitKey (fst entry)) ` set (st_outfits st)"
      using assms push(3) unfolding loopInv_def by blast
    from assms built fresh show ?thesis
      unfolding loopInv_def
      by (auto simp: push(1,2) outfitKey_makeOutfit)
  qed
qed

lemma loopInv_generateLoop:
  "loopInv env request baseProduct baseCategory pools
     (generateLoop env request baseProduct baseCategory pools n 0
        \<lparr>st_outfits = [], st_used = {}, st_rand = 0\<rparr>)"
proof (rule generateLoop_invariant)
  show "loopInv env request baseProduct baseCategory pools \<lparr>st_outfits = [], st_used = {}, st_rand = 0\<rparr>"
    by (simp add: loopInv_def)
next
  fix a s
  assume "loopInv env request baseProduct baseCategory pools s"
  then show "loopInv env request baseProduct baseCategory pools
               (attemptBody env request baseProduct baseCategory pools a s)"
    by (rule loopInv_attempt)
qed

lemma attemptBody_length:
  "length (st_outfits st) \<le> length (st_outfits (attemptBody env request baseProduct baseCategory pools attempt st)) \<and>
   length (st_outfits (attemptBody env request baseProduct baseCategory pools attempt st))
     \<le> Suc (length (st_outfits st))"
  using attemptBody_cases[of env request baseProduct baseCategory pools attempt st] by auto

lemma generateLoop_length:
  assumes "int (length (st_outfits st)) \<le> max 0 n"
  shows "int (length (st_outfits (generateLoop env request baseProduct baseCategory pools n a st))) \<le> max 0 n"
  using assms
proof (induction env request baseProduct baseCategory pools n a st rule: generateLoop.induct)
  case (1 env request baseProduct baseCategory pools numOutfits attempt st)
  show ?case
  proof (cases "int attempt < numOutfits * 5 \<and> int (length (st_outfits st)) < numOutfits")
    case True
    have "int (length (st_outfits (attemptBody env request baseProduct baseCategory pools attempt st)))
            \<le> max 0 numOutfits"
      using True attemptBody_length[of st env request baseProduct baseCategory pools attempt] by linarith
    from "1.IH"[OF True this] True show ?thesis
      by (subst generateLoop.simps) simp
  next
    case False
    then show ?thesis using "1.prems" by (subst generateLoop.simps) auto
  qed
qed

lemma generateLoop_mono:
  "length (st_outfits st) \<le> length (st_outfits (generateLoop env request baseProduct baseCategory pools n a st))"
proof -
  have "length (st_outfits st) \<le> length (st_outfits (generateLoop env request baseProduct baseCategory pools n a st))"
    (is "?P (generateLoop env request baseProduct baseCategory pools n a st)")
  proof (rule generateLoop_invariant)
    show "?P st" by simp
  next
    fix a' s
    assume "?P s"
    then show "?P (attemptBody env request baseProduct baseCategory pools a' s)"
      using attemptBody_length[of s env request baseProduct baseCategory pools a'] by linarith
  qed
  then show ?thesis .
qed

lemma slice0_take: "\<exists>m. slice0 xs n = take m xs"
  by (auto simp: slice0_def)

lemma slice0_whole: "int (length xs) \<le> max 0 n \<Longrightarrow> slice0 xs n = xs"
  by (auto simp: slice0_def)

lemma sort_by_score_sorted:
  fixes f :: "'a \<Rightarrow> rat"
  assumes "\<And>entry. entry \<in> set xs \<Longrightarrow> snd entry = Some (f (fst entry))"
  shows "sorted_wrt (\<lambda>a b. f b \<le> f a) (map fst (sortDescending env xs))"
proof -
  let ?key = "\<lambda>(x, key). - the key :: rat"
  let ?ys = "sort_key ?key xs"
  have "None \<notin> snd ` set xs" using assms by force
  then have s: "sortDescending env xs = ?ys" by (rule sortDescending_numbers)
  have "sorted (map ?key ?ys)" by (rule sorted_sort_key)
  then have "sorted_wrt (\<lambda>a b. ?key a \<le> ?key b) ?ys"
    by (simp add: sorted_wrt_map)
  then have "sorted_wrt (\<lambda>a b. f (fst b) \<le> f (fst a)) ?ys"
  proof (rule sorted_wrt_mono_rel[rotated])
    fix a b
    assume "a \<in> set ?ys" "b \<in> set ?ys" "?key a \<le> ?key b"
    then show "f (fst b) \<le> f (fst a)"
      using assms[of a] assms[of b] by (simp add: split_def)
  qed
  then show ?thesis by (simp add: s sorted_wrt_map)
qed

subsection \<open>The response\<close>

lemma outfits_not_found:
  assumes "getProductById cat (base_product_id request) = None"
  shows "generateOutfitRecommendations env cat request =
           \<lparr>outfits = [], base_product = None,
            processing_time_ms = performance_now env 1 - performance_now env 0,
            cache_hit = False\<rparr>"
  using assms by (simp add: generateOutfitRecommendations_def)

lemma outfits_found:
  assumes "getProductById cat (base_product_id request) = Some baseProduct"
  shows "outfits (generateOutfitRecommendations env cat request) =
           map fst (sortDescending env
             (st_outfits (generateLoop env request baseProduct
                (baseCategoryOf (pricedPools cat) baseProduct) (pricedPools cat)
                (numOutfitsOf request) 0 \<lparr>st_outfits = [], st_used = {}, st_rand = 0\<rparr>)))"
proof -
  let ?st = "generateLoop env request baseProduct
                (baseCategoryOf (pricedPools cat) baseProduct) (pricedPools cat)
                (numOutfitsOf request) 0 \<lparr>st_outfits = [], st_used = {}, st_rand = 0\<rparr>"
  have "int (length (st_outfits ?st)) \<le> max 0 (numOutfitsOf request)"
    by (rule generateLoop_length) simp
  then have "slice0 (map fst (sortDescending env (st_outfits ?st))) (numOutfitsOf request)
               = map fst (sortDescending env (st_outfits ?st))"
    by (intro slice0_whole) (simp add: length_sortDescending)
  then show ?thesis
    using assms by (simp add: generateOutfitRecommendations_def Let_def)
qed

lemma response_outfit_built:
  assumes "x \<in> set (outfits (generateOutfitRecommendations env cat request))"
  shows "\<exists>baseProduct entry.
           getProductById cat (base_product_id request) = Some baseProduct \<and> x = fst entry \<and>
           builtBy env request baseProduct (baseCategoryOf (pricedPools cat) baseProduct)
             (pricedPools cat) entry"
proof (cases "getProductById cat (base_product_id request)")
  case None
  with assms show ?thesis by (simp add: outfits_not_found)
next
  case (Some baseProduct)
  let ?st = "generateLoop env request baseProduct
                (baseCategoryOf (pricedPools cat) baseProduct) (pricedPools cat)
                (numOutfitsOf request) 0 \<lparr>st_outfits = [], st_used = {}, st_rand = 0\<rparr>"
  from assms obtain entry where e: "entry \<in> set (st_outfits ?st)" "x = fst entry"
    by (auto simp: outfits_found[OF Some] set_sortDescending)
  have "loopInv env request baseProduct (baseCategoryOf (pricedPools cat) baseProduct)
          (pricedPools cat) ?st"
    by (rule loopInv_generateLoop)
  with e(1) have "builtBy env request baseProduct (baseCategoryOf (pricedPools cat) baseProduct)
                    (pricedPools cat) entry"
    by (simp add: loopInv_def list_all_iff)
  with Some e(2) show ?thesis by blast
qed

lemma response_outfit_made:
  assumes "x \<in> set (outfits (generateOutfitRecommendations env cat request))"
  shows "\<exists>newId t b s accs. x = fst (makeOutfit request newId t b s accs)"
  using response_outfit_built[OF assms] unfolding builtBy_def by blast

subsection \<open>The scenario catalogs, evaluated\<close>

lemma scenario_products_distinct: "distinct [TOP_001, BOTTOM_001, SHOE_001, ACC_001, ACC_002]"
  by (simp add: TOP_001_def BOTTOM_001_def SHOE_001_def ACC_001_def ACC_002_def)

lemma scenario_neq:
  "TOP_001 \<noteq> BOTTOM_001" "TOP_001 \<noteq> SHOE_001" "TOP_001 \<noteq> ACC_001"
  "TOP_001 \<noteq> ACC_002" "BOTTOM_001 \<noteq> TOP_001" "BOTTOM_001 \<noteq> SHOE_001"
  "BOTTOM_001 \<noteq> ACC_001" "BOTTOM_001 \<noteq> ACC_002" "SHOE_001 \<noteq> TOP_001"
  "SHOE_001 \<noteq> BOTTOM_001" "SHOE_001 \<noteq> ACC_001" "SHOE_001 \<noteq> ACC_002"
  "ACC_001 \<noteq> TOP_001" "ACC_001 \<noteq> BOTTOM_001" "ACC_001 \<noteq> SHOE_001"
  "ACC_001 \<noteq> ACC_002" "ACC_002 \<noteq> TOP_001" "ACC_002 \<noteq> BOTTOM_001"
  "ACC_002 \<noteq> SHOE_001" "ACC_002 \<noteq> ACC_001"
  using scenario_products_distinct by auto

lemma scenario_prices:
  "lowest_price TOP_001 = 1000" "lowest_price BOTTOM_001 = 1500" "lowest_price SHOE_001 = 2000"
  "lowest_price ACC_001 = 500" "lowest_price ACC_002 = 300"
  by (simp_all add: TOP_001_def BOTTOM_001_def SHOE_001_def ACC_001_def ACC_002_def)

lemma scenario_categories:
  "category TOP_001 = ''tops''" "category BOTTOM_001 = ''bottoms''"
  "category SHOE_001 = ''footwear''" "category ACC_001 = ''accessories''"
  "category ACC_002 = ''accessories''"
  by (simp_all add: TOP_001_def BOTTOM_001_def SHOE_001_def ACC_001_def ACC_002_def)

lemma scenario_sku_ids:
  "sku_id TOP_001 = ''TOP_001''" "sku_id BOTTOM_001 = ''BOTTOM_001''"
  "sku_id SHOE_001 = ''SHOE_001''" "sku_id ACC_001 = ''ACC_001''" "sku_id ACC_002 = ''ACC_002''"
  by (simp_all add: TOP_001_def BOTTOM_001_def SHOE_001_def ACC_001_def ACC_002_def)

lemma env0_random: "random env0 k = 0"
  by (simp add: env0_def)

lemma env0_in_range: "randomInRange env0"
  by (simp add: randomInRange_def env0_def)

lemma selectBestItem_singleton:
  assumes "0 \<le> random env k" "random env k < 1"
  shows "selectBestItem env [c] ex pref k = (Some c, Suc k)"
proof -
  obtain p where p: "fst (selectBestItem env [c] ex pref k) = Some p"
    using selectBestItem_in_range[of "[c]" env k ex pref] assms by auto
  then have "p = c" using selectBestItem_Some_mem[OF p] by simp
  with p selectBestItem_counter[of env "[c]" ex pref k] show ?thesis
    by (cases "selectBestItem env [c] ex pref k") simp
qed

lemma select0_singleton: "selectBestItem env0 [c] ex pref k = (Some c, Suc k)"
  by (rule selectBestItem_singleton) (simp_all add: env0_random)

lemma scenario_pools:
  "pricedPools scenarioCatalog =
     \<lparr>allTops = [TOP_001], allBottoms = [BOTTOM_001], allFootwear = [SHOE_001],
      allAccessories = [ACC_001]\<rparr>"
  by (simp add: pricedPools_def scenarioCatalog_def catalogOf_def scenario_prices scenario_categories)

lemma twoAccessory_pools:
  "pricedPools twoAccessoryCatalog =
     \<lparr>allTops = [TOP_001], allBottoms = [BOTTOM_001], allFootwear = [SHOE_001],
      allAccessories = [ACC_001, ACC_002]\<rparr>"
  by (simp add: pricedPools_def twoAccessoryCatalog_def catalogOf_def scenario_prices scenario_categories)


lemma noBottom_pools:
  "pricedPools noBottomCatalog =
     \<lparr>allTops = [TOP_001], allBottoms = [], allFootwear = [SHOE_001],
      allAccessories = [ACC_001]\<rparr>"
  by (simp add: pricedPools_def noBottomCatalog_def catalogOf_def scenario_prices scenario_categories)

lemma scenario_lookup:
  "getProductById scenarioCatalog ''TOP_001'' = Some TOP_001"
  "getProductById scenarioCatalog ''NOT_REAL'' = None"
  "getProductById noAccessoryCatalog ''TOP_001'' = Some TOP_001"
  "getProductById noBottomCatalog ''TOP_001'' = Some TOP_001"
  "getProductById twoAccessoryCatalog ''ACC_002'' = Some ACC_002"
  by (simp_all add: scenarioCatalog_def noAccessoryCatalog_def noBottomCatalog_def
        twoAccessoryCatalog_def catalogOf_def scenario_sku_ids)

lemma scenario_base_category:
  "baseCategoryOf \<lparr>allTops = [TOP_001], allBottoms = bs, allFootwear = fs, allAccessories = as\<rparr>
     TOP_001 = ''tops''"
  "baseCategoryOf \<lparr>allTops = [TOP_001], allBottoms = [BOTTOM_001], allFootwear = [SHOE_001],
      allAccessories = as\<rparr> ACC_002 = ''accessories''"
  by (simp_all add: baseCategoryOf_def scenario_sku_ids)

lemma env0_date_now: "date_now env0 k = 1700000000000"
  by (simp add: env0_def)

text \<open>The first attempt for the base product \<open>TOP_001\<close>, up to the accessories.\<close>

lemma scenario_first_attempt:
  assumes "accessoryLoop env0 as [TOP_001, BOTTOM_001, SHOE_001] (preferred_style request)
             (Suc 0) ([], 2) = (accs, k4)"
  shows "attemptBody env0 request TOP_001 ''tops''
     \<lparr>allTops = [TOP_001], allBottoms = [BOTTOM_001], allFootwear = [SHOE_001],
      allAccessories = as\<rparr> 0 \<lparr>st_outfits = [], st_used = {}, st_rand = 0\<rparr> =
     \<lparr>st_outfits = [makeOutfit request (1700000000000, 0) TOP_001 BOTTOM_001 SHOE_001 accs],
      st_used = {combinationKey TOP_001 BOTTOM_001 SHOE_001},
      st_rand = k4 + 1\<rparr>"
proof -
  have f1: "fillSlot env0 [TOP_001] (preferred_style request) (Some TOP_001) [TOP_001] 0 =
              (Some TOP_001, [TOP_001], 0)"
    by (rule fillSlot_filled)
  have f2: "fillSlot env0 [BOTTOM_001] (preferred_style request) None [TOP_001] 0 =
              (Some BOTTOM_001, [TOP_001, BOTTOM_001], Suc 0)"
    by (simp add: fillSlot_def select0_singleton scenario_neq)
  have f3: "fillSlot env0 [SHOE_001] (preferred_style request) None [TOP_001, BOTTOM_001] (Suc 0) =
              (Some SHOE_001, [TOP_001, BOTTOM_001, SHOE_001], 2)"
    by (simp add: fillSlot_def select0_singleton scenario_neq)
  show ?thesis
    by (simp add: attemptBody_def assignBase_def f1 f2 f3 assms env0_random env0_date_now
          del: accessoryLoop.simps)
qed

lemma requestFor_fields:
  "base_product_id (requestFor i n) = i" "preferred_style (requestFor i n) = None"
  "req_season (requestFor i n) = None" "num_outfits (requestFor i n) = n"
  by (simp_all add: requestFor_def)

lemma scenario_accessory:
  "accessoryLoop env0 [ACC_001] [TOP_001, BOTTOM_001, SHOE_001] pref (Suc 0) ([], 2) = ([ACC_001], 3)"
  by (simp add: select0_singleton)



lemma scenario_values:
  "calculateColorHarmony [TOP_001, BOTTOM_001, SHOE_001, ACC_001] = 9 / 10"
  "calculateStyleMatch [TOP_001, BOTTOM_001, SHOE_001, ACC_001] = 1"
  "calculateBrandCohesion [TOP_001, BOTTOM_001, SHOE_001, ACC_001] = Some (61 / 64)"
  "calculatePriceBalance [TOP_001, BOTTOM_001, SHOE_001, ACC_001] = 4 / 5"
  by code_simp+

lemma scenario_breakdown:
  "score_breakdown scenarioOutfit =
     \<lparr>color_harmony = 9 / 10, style_match = 1, brand_cohesion = Some (61 / 64),
      price_balance = 4 / 5, season_fit = 1\<rparr>"
  by (simp add: scenarioOutfit_def makeOutfit_scores scenario_values calculateSeasonFit_def
        scenarioRequest_def requestFor_fields)

subsection \<open>Ranking and deduplication\<close>

lemma entry_score_is_composite:
  assumes "builtBy env request baseProduct baseCategory pools entry"
  shows "snd entry = compositeScore (score_breakdown (fst entry))"
  using assms unfolding builtBy_def by (auto simp: makeOutfit_scores(3))

text \<open>
  With brands that are no inherited property names, the brand cohesion and the composite
  score of every collected outfit are numbers.
\<close>

lemma builtBy_plain_composite:
  assumes built: "builtBy env request baseProduct baseCategory pools entry"
    and base: "plainBrand baseProduct"
    and pools: "list_all plainBrand
                  (allTops pools @ allBottoms pools @ allFootwear pools @ allAccessories pools)"
  shows "\<exists>c. brand_cohesion (score_breakdown (fst entry)) = Some c \<and>
             compositeScore (score_breakdown (fst entry)) =
               Some (color_harmony (score_breakdown (fst entry)) * (35 / 100) +
                     style_match (score_breakdown (fst entry)) * (30 / 100) +
                     c * (20 / 100) +
                     price_balance (score_breakdown (fst entry)) * (0 / 100) +
                     season_fit (score_breakdown (fst entry)) * (15 / 100))"
proof -
  from built obtain newId t b s accs attempt where
    e: "entry = makeOutfit request newId t b s accs"
    and slots: "slotsFrom baseProduct baseCategory pools t b s"
    and acc: "accessoriesFrom env pools attempt accs"
    unfolding builtBy_def by blast
  have "plainBrand p" if "p \<in> set ([t, b, s] @ accs)" for p
    using that slots acc base pools
    unfolding slotsFrom_def accessoriesFrom_def list_all_iff by auto
  then have "calculateBrandCohesion ([t, b, s] @ accs) \<noteq> None"
    by (intro calculateBrandCohesion_plain) simp_all
  then obtain c where "calculateBrandCohesion ([t, b, s] @ accs) = Some c" by blast
  then have "brand_cohesion (score_breakdown (fst entry)) = Some c"
    unfolding e by (simp add: makeOutfit_scores(1))
  then show ?thesis by (simp add: compositeScore_def)
qed

lemma outfits_sorted:
  assumes "plainBrands cat request"
  shows "sorted_wrt (\<lambda>a b. the (compositeScore (score_breakdown b))
                             \<le> the (compositeScore (score_breakdown a)))
           (outfits (generateOutfitRecommendations env cat request))"
proof (cases "getProductById cat (base_product_id request)")
  case None
  then show ?thesis by (simp add: outfits_not_found)
next
  case (Some baseProduct)
  let ?st = "generateLoop env request baseProduct
                (baseCategoryOf (pricedPools cat) baseProduct) (pricedPools cat)
                (numOutfitsOf request) 0 \<lparr>st_outfits = [], st_used = {}, st_rand = 0\<rparr>"
  from assms Some have plain: "plainBrand baseProduct"
    "list_all plainBrand (allTops (pricedPools cat) @ allBottoms (pricedPools cat) @
        allFootwear (pricedPools cat) @ allAccessories (pricedPools cat))"
    by (simp_all add: plainBrands_def)
  have inv: "loopInv env request baseProduct (baseCategoryOf (pricedPools cat) baseProduct)
          (pricedPools cat) ?st"
    by (rule loopInv_generateLoop)
  have "sorted_wrt (\<lambda>a b. the (compositeScore (score_breakdown b))
                             \<le> the (compositeScore (score_breakdown a)))
          (map fst (sortDescending env (st_outfits ?st)))"
  proof (rule sort_by_score_sorted)
    fix entry
    assume "entry \<in> set (st_outfits ?st)"
    with inv have b: "builtBy env request baseProduct (baseCategoryOf (pricedPools cat) baseProduct)
                     (pricedPools cat) entry"
      by (simp add: loopInv_def list_all_iff)
    from builtBy_plain_composite[OF b plain] entry_score_is_composite[OF b]
    show "snd entry = Some (the (compositeScore (score_breakdown (fst entry))))"
      by auto
  qed
  then show ?thesis by (simp add: outfits_found[OF Some])
qed

lemma outfits_length:
  "int (length (outfits (generateOutfitRecommendations env cat request)))
     \<le> max 0 (numOutfitsOf request)"
proof (cases "getProductById cat (base_product_id request)")
  case None
  then show ?thesis by (simp add: outfits_not_found)
next
  case (Some baseProduct)
  have "int (length (st_outfits (generateLoop env request baseProduct
                (baseCategoryOf (pricedPools cat) baseProduct) (pricedPools cat)
                (numOutfitsOf request) 0 \<lparr>st_outfits = [], st_used = {}, st_rand = 0\<rparr>)))
          \<le> max 0 (numOutfitsOf request)"
    by (rule generateLoop_length) simp
  then show ?thesis by (simp add: outfits_found[OF Some] length_sortDescending)
qed









text \<open>
  A catalog with unique identifiers that files every product under its one category has
  disjoint pools.
\<close>

lemma catalogOf_pools_disjoint:
  assumes "distinct (map sku_id ps)"
  shows "poolsDisjoint (pricedPools (catalogOf ps))"
proof -
  from assms have inj: "inj_on sku_id (set ps)" by (simp add: distinct_map)
  have "sku_id ` {p \<in> set ps. category p = c \<and> P p} \<inter> sku_id ` {p \<in> set ps. category p = d \<and> Q p} = {}"
    if "c \<noteq> d" for c d :: string and P Q :: "Product \<Rightarrow> bool"
  proof (rule ccontr)
    assume "\<not> ?thesis"
    then obtain p q where pq: "p \<in> set ps" "q \<in> set ps" "category p = c" "category q = d"
      "sku_id p = sku_id q" by auto
    with inj have "p = q" by (auto dest: inj_onD)
    with pq that show False by simp
  qed
  note d = this
  have "{p \<in> set ps. category p = c \<and> 0 < lowest_price p} =
        set (filter (\<lambda>p. 0 < lowest_price p) (filter (\<lambda>p. category p = c) ps))" for c
    by auto
  then show ?thesis
    using d[of "''tops''" "''bottoms''" "\<lambda>p. 0 < lowest_price p" "\<lambda>p. 0 < lowest_price p"]
      d[of "''tops''" "''footwear''" "\<lambda>p. 0 < lowest_price p" "\<lambda>p. 0 < lowest_price p"]
      d[of "''bottoms''" "''footwear''" "\<lambda>p. 0 < lowest_price p" "\<lambda>p. 0 < lowest_price p"]
    by (simp add: poolsDisjoint_def pricedPools_def catalogOf_def)
qed

subsection \<open>The first attempt\<close>

lemma fillSlot_progress:
  assumes "randomInRange env" "slot = None \<longrightarrow> (\<exists>x \<in> set pool. x \<notin> set sel)"
  shows "\<exists>y sel' k'. fillSlot env pool pref slot sel k = (Some y, sel', k') \<and>
           set sel' \<subseteq> set sel \<union> set pool"
proof (cases slot)
  case (Some p)
  then show ?thesis by (simp add: fillSlot_def)
next
  case None
  with assms(2) obtain x where x: "x \<in> set pool" "x \<notin> set sel" by blast
  obtain r sel' k' where f: "fillSlot env pool pref None sel k = (r, sel', k')"
    by (metis prod_cases3)
  from fillSlot_succeeds[OF assms(1) x, of pref k] f obtain y where "r = Some y" by auto
  with fillSlot_empty_result[OF f] f None show ?thesis by auto
qed

lemma assignBase_selected:
  assumes "assignBase baseCategory baseProduct = (top0, bottom0, shoe0, sel0)"
  shows "set sel0 \<subseteq> {baseProduct} \<and> (top0 = None \<longrightarrow> baseCategory \<noteq> ''tops'') \<and>
         (bottom0 = None \<longrightarrow> baseCategory \<noteq> ''bottoms'') \<and>
         (shoe0 = None \<longrightarrow> baseCategory \<noteq> ''footwear'')"
  using assms by (auto simp: assignBase_def split: if_splits)

lemma first_attempt_pushes:
  assumes "randomInRange env" "canFill baseProduct baseCategory pools" "st_used st = {}"
  shows "length (st_outfits (attemptBody env request baseProduct baseCategory pools attempt st))
           = Suc (length (st_outfits st))"
proof -
  obtain top0 bottom0 shoe0 sel0 where
    ab: "assignBase baseCategory baseProduct = (top0, bottom0, shoe0, sel0)"
    by (metis prod_cases4)
  note a = assignBase_selected[OF ab]
  have "top0 = None \<longrightarrow> (\<exists>x \<in> set (allTops pools). x \<notin> set sel0)"
    using a assms(2) unfolding canFill_def by blast
  from fillSlot_progress[OF assms(1) this] obtain t sel1 k1 where
    f1: "fillSlot env (allTops pools) (preferred_style request) top0 sel0 (st_rand st) = (Some t, sel1, k1)"
    and s1: "set sel1 \<subseteq> set sel0 \<union> set (allTops pools)"
    by blast
  have "bottom0 = None \<longrightarrow> (\<exists>x \<in> set (allBottoms pools). x \<notin> set sel1)"
    using a s1 assms(2) unfolding canFill_def by blast
  from fillSlot_progress[OF assms(1) this] obtain b sel2 k2 where
    f2: "fillSlot env (allBottoms pools) (preferred_style request) bottom0 sel1 k1 = (Some b, sel2, k2)"
    and s2: "set sel2 \<subseteq> set sel1 \<union> set (allBottoms pools)"
    by blast
  have "shoe0 = None \<longrightarrow> (\<exists>x \<in> set (allFootwear pools). x \<notin> set sel2)"
    using a s1 s2 assms(2) unfolding canFill_def by blast
  from fillSlot_progress[OF assms(1) this] obtain s sel3 k3 where
    f3: "fillSlot env (allFootwear pools) (preferred_style request) shoe0 sel2 k2 = (Some s, sel3, k3)"
    by blast
  obtain accs k4 where
    al: "accessoryLoop env (allAccessories pools) sel3 (preferred_style request)
           (Suc (attempt mod 2)) ([], k3) = (accs, k4)"
    by (cases "accessoryLoop env (allAccessories pools) sel3 (preferred_style request)
           (Suc (attempt mod 2)) ([], k3)")
  show ?thesis
    unfolding attemptBody_def
    by (simp add: ab f1 f2 f3 al assms(3) del: accessoryLoop.simps)
qed

lemma makeOutfit_num_outfits:
  "makeOutfit (request\<lparr>num_outfits := n\<rparr>) newId t b s accs = makeOutfit request newId t b s accs"
  by (simp add: makeOutfit_def)

lemma attemptBody_num_outfits:
  "attemptBody env (request\<lparr>num_outfits := n\<rparr>) baseProduct baseCategory pools attempt st =
   attemptBody env request baseProduct baseCategory pools attempt st"
  by (simp add: attemptBody_def makeOutfit_num_outfits Let_def
        cong: prod.case_cong option.case_cong if_cong)

lemma generateLoop_num_outfits:
  "generateLoop env (request\<lparr>num_outfits := n\<rparr>) baseProduct baseCategory pools m a st =
   generateLoop env request baseProduct baseCategory pools m a st"
proof (induction env request baseProduct baseCategory pools m a st rule: generateLoop.induct)
  case (1 env request baseProduct baseCategory pools numOutfits attempt st)
  have L: "generateLoop env (request\<lparr>num_outfits := n\<rparr>) baseProduct baseCategory pools numOutfits attempt st =
     (if int attempt < numOutfits * 5 \<and> int (length (st_outfits st)) < numOutfits
      then generateLoop env (request\<lparr>num_outfits := n\<rparr>) baseProduct baseCategory pools numOutfits (attempt + 1)
             (attemptBody env (request\<lparr>num_outfits := n\<rparr>) baseProduct baseCategory pools attempt st)
      else st)"
    by (rule generateLoop.simps)
  have R: "generateLoop env request baseProduct baseCategory pools numOutfits attempt st =
     (if int attempt < numOutfits * 5 \<and> int (length (st_outfits st)) < numOutfits
      then generateLoop env request baseProduct baseCategory pools numOutfits (attempt + 1)
             (attemptBody env request baseProduct baseCategory pools attempt st)
      else st)"
    by (rule generateLoop.simps)
  show ?case
  proof (cases "int attempt < numOutfits * 5 \<and> int (length (st_outfits st)) < numOutfits")
    case True
    from "1.IH"[OF True] True show ?thesis
      by (simp only: L R attemptBody_num_outfits if_True)
  next
    case False
    then show ?thesis by (simp only: L R if_False)
  qed
qed

lemma response_num_outfits:
  assumes "numOutfitsOf (request\<lparr>num_outfits := n\<rparr>) = numOutfitsOf (request\<lparr>num_outfits := n'\<rparr>)"
  shows "generateOutfitRecommendations env cat (request\<lparr>num_outfits := n\<rparr>) =
         generateOutfitRecommendations env cat (request\<lparr>num_outfits := n'\<rparr>)"
  using assms
  by (cases "getProductById cat (base_product_id request)")
     (simp_all add: generateOutfitRecommendations_def generateLoop_num_outfits Let_def)

lemma first_attempt_gives_outfit:
  assumes found: "getProductById cat (base_product_id request) = Some baseProduct"
    and rnd: "randomInRange env"
    and fill: "canFill baseProduct (baseCategoryOf (pricedPools cat) baseProduct) (pricedPools cat)"
    and pos: "0 < numOutfitsOf request"
  shows "outfits (generateOutfitRecommendations env cat request) \<noteq> []"
proof -
  let ?bc = "baseCategoryOf (pricedPools cat) baseProduct"
  let ?init = "\<lparr>st_outfits = [], st_used = {}, st_rand = 0\<rparr>"
  let ?first = "attemptBody env request baseProduct ?bc (pricedPools cat) 0 ?init"
  have "generateLoop env request baseProduct ?bc (pricedPools cat) (numOutfitsOf request) 0 ?init =
        generateLoop env request baseProduct ?bc (pricedPools cat) (numOutfitsOf request) (0 + 1) ?first"
    using pos by (subst generateLoop.simps) simp
  moreover have "length (st_outfits ?first) = Suc 0"
    using first_attempt_pushes[OF rnd fill, of ?init request 0] by simp
  ultimately have "Suc 0 \<le> length (st_outfits
      (generateLoop env request baseProduct ?bc (pricedPools cat) (numOutfitsOf request) 0 ?init))"
    using generateLoop_mono[of ?first env request baseProduct ?bc "pricedPools cat"
            "numOutfitsOf request" "0 + 1"]
    by simp
  then have "Suc 0 \<le> length (outfits (generateOutfitRecommendations env cat request))"
    by (simp add: outfits_found[OF found] length_sortDescending)
  then show ?thesis by auto
qed

lemma no_bottom_no_outfit:
  assumes "allBottoms pools = []" "baseCategory \<noteq> ''bottoms''"
  shows "st_outfits (attemptBody env request baseProduct baseCategory pools attempt st) = st_outfits st"
  using attemptBody_cases[of env request baseProduct baseCategory pools attempt st] assms
  unfolding slotsFrom_def by auto

subsection \<open>More evaluations of the scenario catalogs\<close>



lemma scenario_tiers:
  "brandTier TOP_001 = Some 2" "brandTier BOTTOM_001 = Some 2" "brandTier SHOE_001 = Some 3"
  "brandTier ACC_001 = Some 2" "brandTier ACC_002 = Some 2"
  by code_simp+

lemma scenario_colors:
  "colorOf TOP_001 = white" "colorOf BOTTOM_001 = navy" "colorOf SHOE_001 = white"
  "colorOf ACC_001 = black" "colorOf ACC_002 = multi"
  by (simp_all add: colorOf_def TOP_001_def BOTTOM_001_def SHOE_001_def ACC_001_def ACC_002_def)

lemma scenario_styles:
  "styleOf TOP_001 = casual" "styleOf BOTTOM_001 = casual" "styleOf SHOE_001 = casual"
  "styleOf ACC_001 = casual" "styleOf ACC_002 = athletic"
  by (simp_all add: styleOf_def TOP_001_def BOTTOM_001_def SHOE_001_def ACC_001_def ACC_002_def)

lemma scenario_tags:
  "tags ACC_001 = [''bestseller'']" "tags ACC_002 = []"
  by (simp_all add: ACC_001_def ACC_002_def)

lemma accessory_candidate_scores:
  "candidateScore [TOP_001, BOTTOM_001, SHOE_001] None ACC_001 = Some (97 / 100)"
  "candidateScore [TOP_001, BOTTOM_001, SHOE_001] None ACC_002 = Some (53 / 80)"
  by (simp_all add: candidateScore_def scenario_tiers scenario_colors scenario_styles scenario_tags
        colorScore_def colorLookup_def COLOR_HARMONY_def
        styleScore_def styleLookup_def STYLE_COMPATIBILITY_def)

lemma accessory_selection:
  "selectBestItem env0 [ACC_001, ACC_002] [TOP_001, BOTTOM_001, SHOE_001] None k = (Some ACC_001, Suc k)"
  by (simp add: selectBestItem_def sortDescending_def accessory_candidate_scores env0_random)

lemma accessory_base_first_attempt:
  "attemptBody env0 accessoryRequest ACC_002 ''accessories''
     \<lparr>allTops = [TOP_001], allBottoms = [BOTTOM_001], allFootwear = [SHOE_001],
      allAccessories = [ACC_001, ACC_002]\<rparr> 0 \<lparr>st_outfits = [], st_used = {}, st_rand = 0\<rparr> =
     \<lparr>st_outfits = [makeOutfit accessoryRequest (1700000000000, 0) TOP_001 BOTTOM_001 SHOE_001 [ACC_001]],
      st_used = {combinationKey TOP_001 BOTTOM_001 SHOE_001},
      st_rand = 5\<rparr>"
proof -
  have p: "preferred_style accessoryRequest = None"
    by (simp add: accessoryRequest_def requestFor_fields)
  have f1: "fillSlot env0 [TOP_001] None None [] 0 = (Some TOP_001, [TOP_001], Suc 0)"
    by (simp add: fillSlot_def select0_singleton)
  have f2: "fillSlot env0 [BOTTOM_001] None None [TOP_001] (Suc 0) =
              (Some BOTTOM_001, [TOP_001, BOTTOM_001], 2)"
    by (simp add: fillSlot_def select0_singleton scenario_neq)
  have f3: "fillSlot env0 [SHOE_001] None None [TOP_001, BOTTOM_001] 2 =
              (Some SHOE_001, [TOP_001, BOTTOM_001, SHOE_001], 3)"
    by (simp add: fillSlot_def select0_singleton scenario_neq)
  have al: "accessoryLoop env0 [ACC_001, ACC_002] [TOP_001, BOTTOM_001, SHOE_001] None
              (Suc 0) ([], 3) = ([ACC_001], 4)"
    by (simp add: accessory_selection)
  show ?thesis
    by (simp add: attemptBody_def assignBase_def p f1 f2 f3 al env0_random env0_date_now
          del: accessoryLoop.simps)
qed

lemma accessory_base_outfits:
  "outfits (generateOutfitRecommendations env0 twoAccessoryCatalog accessoryRequest) =
     [fst (makeOutfit accessoryRequest (1700000000000, 0) TOP_001 BOTTOM_001 SHOE_001 [ACC_001])]"
proof -
  have found: "getProductById twoAccessoryCatalog (base_product_id accessoryRequest) = Some ACC_002"
    by (simp add: accessoryRequest_def requestFor_fields scenario_lookup)
  have n: "numOutfitsOf accessoryRequest = 1"
    by (simp add: numOutfitsOf_def accessoryRequest_def requestFor_fields)
  let ?pools = "\<lparr>allTops = [TOP_001], allBottoms = [BOTTOM_001], allFootwear = [SHOE_001],
      allAccessories = [ACC_001, ACC_002]\<rparr>"
  have loop: "generateLoop env0 accessoryRequest ACC_002 ''accessories'' ?pools 1 0
                \<lparr>st_outfits = [], st_used = {}, st_rand = 0\<rparr> =
     \<lparr>st_outfits = [makeOutfit accessoryRequest (1700000000000, 0) TOP_001 BOTTOM_001 SHOE_001 [ACC_001]],
      st_used = {combinationKey TOP_001 BOTTOM_001 SHOE_001},
      st_rand = 5\<rparr>"
    by (subst generateLoop.simps, simp add: accessory_base_first_attempt)
       (subst generateLoop.simps, simp)
  from outfits_found[OF found, of env0] show ?thesis
    by (simp add: twoAccessory_pools scenario_base_category n loop sortDescending_single)
qed

lemma base_product_found:
  assumes "getProductById cat (base_product_id request) = Some baseProduct"
  shows "base_product (generateOutfitRecommendations env cat request) = Some baseProduct"
  using assms by (simp add: generateOutfitRecommendations_def Let_def)

subsection \<open>A response with two outfits\<close>

lemma more_products_distinct:
  "distinct [TOP_001, BOTTOM_001, BOTTOM_002, SHOE_001, ACC_001, SUIT_001, SUIT_002, TOP_002]"
  by (simp add: TOP_001_def BOTTOM_001_def BOTTOM_002_def SHOE_001_def ACC_001_def
        SUIT_001_def SUIT_002_def TOP_002_def)

lemma more_neq:
  "BOTTOM_002 \<noteq> TOP_001" "BOTTOM_002 \<noteq> BOTTOM_001" "BOTTOM_002 \<noteq> SHOE_001" "BOTTOM_002 \<noteq> ACC_001"
  "TOP_001 \<noteq> BOTTOM_002" "BOTTOM_001 \<noteq> BOTTOM_002" "SHOE_001 \<noteq> BOTTOM_002" "ACC_001 \<noteq> BOTTOM_002"
  "SUIT_001 \<noteq> SUIT_002" "SUIT_002 \<noteq> SUIT_001" "SUIT_001 \<noteq> SHOE_001" "SHOE_001 \<noteq> SUIT_001"
  "SUIT_002 \<noteq> SHOE_001" "SHOE_001 \<noteq> SUIT_002"
  "TOP_002 \<noteq> BOTTOM_001" "BOTTOM_001 \<noteq> TOP_002" "TOP_002 \<noteq> SHOE_001" "SHOE_001 \<noteq> TOP_002"
  "TOP_002 \<noteq> ACC_001" "ACC_001 \<noteq> TOP_002"
  using more_products_distinct by auto

lemma more_fields:
  "lowest_price BOTTOM_002 = 900" "category BOTTOM_002 = ''bottoms''" "sku_id BOTTOM_002 = ''BOTTOM_002''"
  "lowest_price SUIT_001 = 3000" "sku_id SUIT_001 = ''SUIT_001''"
  "lowest_price SUIT_002 = 3000" "sku_id SUIT_002 = ''SUIT_002''"
  "lowest_price TOP_002 = 1200" "category TOP_002 = ''tops''" "sku_id TOP_002 = ''TOP_002''"
  by (simp_all add: BOTTOM_002_def SUIT_001_def SUIT_002_def TOP_002_def)

lemma more_colors_styles:
  "colorOf BOTTOM_002 = red" "styleOf BOTTOM_002 = athletic"
  "colorOf SUIT_001 = black" "styleOf SUIT_001 = casual"
  "colorOf SUIT_002 = black" "styleOf SUIT_002 = casual"
  "tags BOTTOM_001 = []" "tags BOTTOM_002 = []" "tags SUIT_001 = []" "tags SUIT_002 = []"
  by (simp_all add: colorOf_def styleOf_def BOTTOM_001_def BOTTOM_002_def SUIT_001_def SUIT_002_def)

lemma more_tiers:
  "brandTier BOTTOM_002 = Some 1" "brandTier SUIT_001 = Some 2" "brandTier SUIT_002 = Some 2"
  "brandTier TOP_002 = None"
  by code_simp+

lemma scenario_plain:
  "plainBrand TOP_001" "plainBrand BOTTOM_001" "plainBrand BOTTOM_002" "plainBrand SHOE_001"
  "plainBrand ACC_001" "\<not> plainBrand TOP_002"
  by code_simp+

lemma env1_in_range: "randomInRange env1"
  by (simp add: randomInRange_def env1_def)

lemma env1_fields:
  "random env1 0 = 1 / 2" "0 < k \<Longrightarrow> random env1 k = 0" "date_now env1 k = 1700000000000"
  by (simp_all add: env1_def)

lemma select1_singleton: "selectBestItem env1 [c] ex pref k = (Some c, Suc k)"
  using env1_in_range by (intro selectBestItem_singleton) (simp_all add: randomInRange_def)

lemma twoBottom_pools:
  "pricedPools twoBottomCatalog =
     \<lparr>allTops = [TOP_001], allBottoms = [BOTTOM_001, BOTTOM_002], allFootwear = [SHOE_001],
      allAccessories = [ACC_001]\<rparr>"
  by (simp add: pricedPools_def twoBottomCatalog_def catalogOf_def scenario_prices
        scenario_categories more_fields)

lemma twoBottom_lookup:
  "getProductById twoBottomCatalog (base_product_id twoRequest) = Some TOP_001"
  by (simp add: twoBottomCatalog_def catalogOf_def twoRequest_def requestFor_fields scenario_sku_ids)

lemma bottom_candidate_scores:
  "candidateScore [TOP_001] None BOTTOM_001 = Some (22 / 25)"
  "candidateScore [TOP_001] None BOTTOM_002 = Some (281 / 400)"
  by (simp_all add: candidateScore_def scenario_tiers more_tiers scenario_colors scenario_styles
        more_colors_styles colorScore_def colorLookup_def COLOR_HARMONY_def
        styleScore_def styleLookup_def STYLE_COMPATIBILITY_def)

text \<open>The choice between the two bottoms follows the random number.\<close>

lemma bottom_selection:
  "random env k = 0 \<Longrightarrow>
     selectBestItem env [BOTTOM_001, BOTTOM_002] [TOP_001] None k = (Some BOTTOM_001, Suc k)"
  "random env k = 1 / 2 \<Longrightarrow>
     selectBestItem env [BOTTOM_001, BOTTOM_002] [TOP_001] None k = (Some BOTTOM_002, Suc k)"
  by (simp_all add: selectBestItem_def sortDescending_def bottom_candidate_scores)

lemma twoBottom_first_attempt:
  "attemptBody env1 twoRequest TOP_001 ''tops''
     \<lparr>allTops = [TOP_001], allBottoms = [BOTTOM_001, BOTTOM_002], allFootwear = [SHOE_001],
      allAccessories = [ACC_001]\<rparr> 0 \<lparr>st_outfits = [], st_used = {}, st_rand = 0\<rparr> =
   \<lparr>st_outfits = [makeOutfit twoRequest (1700000000000, 0) TOP_001 BOTTOM_002 SHOE_001 [ACC_001]],
    st_used = {combinationKey TOP_001 BOTTOM_002 SHOE_001},
    st_rand = 4\<rparr>"
proof -
  have p: "preferred_style twoRequest = None" by (simp add: twoRequest_def requestFor_fields)
  have f1: "fillSlot env1 [TOP_001] None (Some TOP_001) [TOP_001] 0 = (Some TOP_001, [TOP_001], 0)"
    by (rule fillSlot_filled)
  have f2: "fillSlot env1 [BOTTOM_001, BOTTOM_002] None None [TOP_001] 0 =
              (Some BOTTOM_002, [TOP_001, BOTTOM_002], Suc 0)"
    by (simp add: fillSlot_def bottom_selection env1_fields scenario_neq more_neq)
  have f3: "fillSlot env1 [SHOE_001] None None [TOP_001, BOTTOM_002] (Suc 0) =
              (Some SHOE_001, [TOP_001, BOTTOM_002, SHOE_001], 2)"
    by (simp add: fillSlot_def select1_singleton scenario_neq more_neq)
  have al: "accessoryLoop env1 [ACC_001] [TOP_001, BOTTOM_002, SHOE_001] None (Suc 0) ([], 2) =
              ([ACC_001], 3)"
    by (simp add: select1_singleton)
  show ?thesis
    by (simp add: attemptBody_def assignBase_def p f1 f2 f3 al env1_fields
          del: accessoryLoop.simps)
qed

lemma twoBottom_second_attempt:
  "attemptBody env1 twoRequest TOP_001 ''tops''
     \<lparr>allTops = [TOP_001], allBottoms = [BOTTOM_001, BOTTOM_002], allFootwear = [SHOE_001],
      allAccessories = [ACC_001]\<rparr> (Suc 0)
     \<lparr>st_outfits = [makeOutfit twoRequest (1700000000000, 0) TOP_001 BOTTOM_002 SHOE_001 [ACC_001]],
      st_used = {combinationKey TOP_001 BOTTOM_002 SHOE_001},
      st_rand = 4\<rparr> =
   \<lparr>st_outfits = [makeOutfit twoRequest (1700000000000, 0) TOP_001 BOTTOM_002 SHOE_001 [ACC_001],
                  makeOutfit twoRequest (1700000000000, 0) TOP_001 BOTTOM_001 SHOE_001 [ACC_001]],
    st_used = {combinationKey TOP_001 BOTTOM_001 SHOE_001, combinationKey TOP_001 BOTTOM_002 SHOE_001},
    st_rand = 8\<rparr>"
proof -
  have p: "preferred_style twoRequest = None" by (simp add: twoRequest_def requestFor_fields)
  have f1: "fillSlot env1 [TOP_001] None (Some TOP_001) [TOP_001] 4 = (Some TOP_001, [TOP_001], 4)"
    by (rule fillSlot_filled)
  have f2: "fillSlot env1 [BOTTOM_001, BOTTOM_002] None None [TOP_001] 4 =
              (Some BOTTOM_001, [TOP_001, BOTTOM_001], 5)"
    by (simp add: fillSlot_def bottom_selection env1_fields scenario_neq more_neq)
  have f3: "fillSlot env1 [SHOE_001] None None [TOP_001, BOTTOM_001] 5 =
              (Some SHOE_001, [TOP_001, BOTTOM_001, SHOE_001], 6)"
    by (simp add: fillSlot_def select1_singleton scenario_neq more_neq)
  have al: "accessoryLoop env1 [ACC_001] [TOP_001, BOTTOM_001, SHOE_001] None (Suc (Suc 0)) ([], 6) =
              ([ACC_001], 7)"
    by (simp add: select1_singleton selectBestItem_empty)
  have k: "combinationKey TOP_001 BOTTOM_001 SHOE_001 \<noteq> combinationKey TOP_001 BOTTOM_002 SHOE_001"
    by (simp add: combinationKey_def scenario_sku_ids more_fields)
  show ?thesis
    by (simp add: attemptBody_def assignBase_def p f1 f2 f3 al k env1_fields
          del: accessoryLoop.simps)
qed

lemma twoBottom_loop:
  "generateLoop env1 twoRequest TOP_001 ''tops''
     \<lparr>allTops = [TOP_001], allBottoms = [BOTTOM_001, BOTTOM_002], allFootwear = [SHOE_001],
      allAccessories = [ACC_001]\<rparr> 2 0 \<lparr>st_outfits = [], st_used = {}, st_rand = 0\<rparr> =
   \<lparr>st_outfits = [makeOutfit twoRequest (1700000000000, 0) TOP_001 BOTTOM_002 SHOE_001 [ACC_001],
                  makeOutfit twoRequest (1700000000000, 0) TOP_001 BOTTOM_001 SHOE_001 [ACC_001]],
    st_used = {combinationKey TOP_001 BOTTOM_001 SHOE_001, combinationKey TOP_001 BOTTOM_002 SHOE_001},
    st_rand = 8\<rparr>"
  by (subst generateLoop.simps, simp add: twoBottom_first_attempt)
     (subst generateLoop.simps, simp add: twoBottom_second_attempt,
      subst generateLoop.simps, simp)

lemma twoBottom_values:
  "calculateColorHarmony [TOP_001, BOTTOM_002, SHOE_001, ACC_001] = 101 / 120"
  "calculateStyleMatch [TOP_001, BOTTOM_002, SHOE_001, ACC_001] = 7 / 8"
  "calculateBrandCohesion [TOP_001, BOTTOM_002, SHOE_001, ACC_001] = Some (7 / 8)"
  "calculatePriceBalance [TOP_001, BOTTOM_002, SHOE_001, ACC_001] = 181 / 242"
  by code_simp+

lemma twoBottom_composites:
  "snd (makeOutfit twoRequest newId TOP_001 BOTTOM_001 SHOE_001 [ACC_001]) = Some (1529 / 1600)"
  "snd (makeOutfit twoRequest newId TOP_001 BOTTOM_002 SHOE_001 [ACC_001]) = Some (2117 / 2400)"
  by (simp_all add: makeOutfit_scores compositeScore_def scenario_values twoBottom_values
        calculateSeasonFit_def twoRequest_def requestFor_fields)

text \<open>The outfit that is built second has the higher composite score and is returned first.\<close>

lemma twoBottom_outfits:
  "outfits (generateOutfitRecommendations env1 twoBottomCatalog twoRequest) =
     [fst (makeOutfit twoRequest (1700000000000, 0) TOP_001 BOTTOM_001 SHOE_001 [ACC_001]),
      fst (makeOutfit twoRequest (1700000000000, 0) TOP_001 BOTTOM_002 SHOE_001 [ACC_001])]"
proof -
  have n: "numOutfitsOf twoRequest = 2"
    by (simp add: numOutfitsOf_def twoRequest_def requestFor_fields)
  have "sortDescending env1
          [makeOutfit twoRequest (1700000000000, 0) TOP_001 BOTTOM_002 SHOE_001 [ACC_001],
           makeOutfit twoRequest (1700000000000, 0) TOP_001 BOTTOM_001 SHOE_001 [ACC_001]] =
        [makeOutfit twoRequest (1700000000000, 0) TOP_001 BOTTOM_001 SHOE_001 [ACC_001],
         makeOutfit twoRequest (1700000000000, 0) TOP_001 BOTTOM_002 SHOE_001 [ACC_001]]"
    by (simp add: sortDescending_def twoBottom_composites split_def)
  with outfits_found[OF twoBottom_lookup, of env1] show ?thesis
    by (simp add: twoBottom_pools scenario_base_category n twoBottom_loop)
qed

subsection \<open>Overlapping pools, and a brand named like an inherited property\<close>















text \<open>The catalog with the brand \<open>Constructor\<close>.\<close>

lemma constructor_pools:
  "pricedPools constructorCatalog =
     \<lparr>allTops = [TOP_002], allBottoms = [BOTTOM_001], allFootwear = [SHOE_001],
      allAccessories = [ACC_001]\<rparr>"
  by (simp add: pricedPools_def constructorCatalog_def catalogOf_def scenario_prices
        scenario_categories more_fields)

lemma constructor_lookup:
  "getProductById constructorCatalog (base_product_id constructorRequest) = Some TOP_002"
  by (simp add: constructorCatalog_def catalogOf_def constructorRequest_def requestFor_fields
        more_fields)

lemma constructor_base_category:
  "baseCategoryOf \<lparr>allTops = [TOP_002], allBottoms = [BOTTOM_001], allFootwear = [SHOE_001],
      allAccessories = [ACC_001]\<rparr> TOP_002 = ''tops''"
  by (simp add: baseCategoryOf_def)

lemma constructor_first_attempt:
  "attemptBody env0 constructorRequest TOP_002 ''tops''
     \<lparr>allTops = [TOP_002], allBottoms = [BOTTOM_001], allFootwear = [SHOE_001],
      allAccessories = [ACC_001]\<rparr> 0 \<lparr>st_outfits = [], st_used = {}, st_rand = 0\<rparr> =
   \<lparr>st_outfits = [makeOutfit constructorRequest (1700000000000, 0) TOP_002 BOTTOM_001 SHOE_001 [ACC_001]],
    st_used = {combinationKey TOP_002 BOTTOM_001 SHOE_001},
    st_rand = 4\<rparr>"
proof -
  have p: "preferred_style constructorRequest = None"
    by (simp add: constructorRequest_def requestFor_fields)
  have f1: "fillSlot env0 [TOP_002] None (Some TOP_002) [TOP_002] 0 = (Some TOP_002, [TOP_002], 0)"
    by (rule fillSlot_filled)
  have f2: "fillSlot env0 [BOTTOM_001] None None [TOP_002] 0 =
              (Some BOTTOM_001, [TOP_002, BOTTOM_001], Suc 0)"
    by (simp add: fillSlot_def select0_singleton more_neq)
  have f3: "fillSlot env0 [SHOE_001] None None [TOP_002, BOTTOM_001] (Suc 0) =
              (Some SHOE_001, [TOP_002, BOTTOM_001, SHOE_001], 2)"
    by (simp add: fillSlot_def select0_singleton scenario_neq more_neq)
  have al: "accessoryLoop env0 [ACC_001] [TOP_002, BOTTOM_001, SHOE_001] None (Suc 0) ([], 2) =
              ([ACC_001], 3)"
    by (simp add: select0_singleton)
  show ?thesis
    by (simp add: attemptBody_def assignBase_def p f1 f2 f3 al env0_random env0_date_now
          del: accessoryLoop.simps)
qed

lemma constructor_outfits:
  "outfits (generateOutfitRecommendations env0 constructorCatalog constructorRequest) =
     [fst (makeOutfit constructorRequest (1700000000000, 0) TOP_002 BOTTOM_001 SHOE_001 [ACC_001])]"
proof -
  have n: "numOutfitsOf constructorRequest = 1"
    by (simp add: numOutfitsOf_def constructorRequest_def requestFor_fields)
  let ?pools = "\<lparr>allTops = [TOP_002], allBottoms = [BOTTOM_001], allFootwear = [SHOE_001],
      allAccessories = [ACC_001]\<rparr>"
  have loop: "generateLoop env0 constructorRequest TOP_002 ''tops'' ?pools 1 0
                \<lparr>st_outfits = [], st_used = {}, st_rand = 0\<rparr> =
     \<lparr>st_outfits = [makeOutfit constructorRequest (1700000000000, 0) TOP_002 BOTTOM_001 SHOE_001 [ACC_001]],
      st_used = {combinationKey TOP_002 BOTTOM_001 SHOE_001},
      st_rand = 4\<rparr>"
    by (subst generateLoop.simps, simp add: constructor_first_attempt)
       (subst generateLoop.simps, simp)
  from outfits_found[OF constructor_lookup, of env0] show ?thesis
    by (simp add: constructor_pools constructor_base_category n loop sortDescending_single)
qed

lemma constructor_cohesion:
  "calculateBrandCohesion [TOP_002, BOTTOM_001, SHOE_001, ACC_001] = None"
proof (rule calculateBrandCohesion_inherited)
  show "TOP_002 \<in> set [TOP_002, BOTTOM_001, SHOE_001, ACC_001]" by simp
  show "inheritedProperty (toLowerCase (brand_name TOP_002))"
    using scenario_plain(6) by (simp add: plainBrand_def)
qed

subsection \<open>Scores of outfits whose brands are in the table or get the default\<close>

lemma response_plain_composite:
  assumes plain: "plainBrands cat request"
    and x: "x \<in> set (outfits (generateOutfitRecommendations env cat request))"
  shows "\<exists>c. brand_cohesion (score_breakdown x) = Some c \<and>
             compositeScore (score_breakdown x) =
               Some (color_harmony (score_breakdown x) * (35 / 100) +
                     style_match (score_breakdown x) * (30 / 100) +
                     c * (20 / 100) +
                     price_balance (score_breakdown x) * (0 / 100) +
                     season_fit (score_breakdown x) * (15 / 100))"
proof -
  from response_outfit_built[OF x] obtain baseProduct entry where
    found: "getProductById cat (base_product_id request) = Some baseProduct"
    and e: "x = fst entry"
    and b: "builtBy env request baseProduct (baseCategoryOf (pricedPools cat) baseProduct)
              (pricedPools cat) entry"
    by blast
  from plain found have "plainBrand baseProduct"
    "list_all plainBrand (allTops (pricedPools cat) @ allBottoms (pricedPools cat) @
        allFootwear (pricedPools cat) @ allAccessories (pricedPools cat))"
    by (simp_all add: plainBrands_def)
  from builtBy_plain_composite[OF b this] show ?thesis unfolding e .
qed

lemma plain_scores_in_unit_interval:
  assumes plain: "plainBrands cat request"
    and x: "x \<in> set (outfits (generateOutfitRecommendations env cat request))"
  shows "0 \<le> color_harmony (score_breakdown x) \<and> color_harmony (score_breakdown x) \<le> 1 \<and>
         0 \<le> style_match (score_breakdown x) \<and> style_match (score_breakdown x) \<le> 1 \<and>
         (\<exists>c. brand_cohesion (score_breakdown x) = Some c \<and> 0 \<le> c \<and> c \<le> 1) \<and>
         0 \<le> price_balance (score_breakdown x) \<and> price_balance (score_breakdown x) \<le> 1 \<and>
         0 \<le> season_fit (score_breakdown x) \<and> season_fit (score_breakdown x) \<le> 1 \<and>
         0 \<le> match_score x \<and> match_score x \<le> 1"
proof -
  obtain newId t b s accs where x': "x = fst (makeOutfit request newId t b s accs)"
    using response_outfit_made[OF x] by blast
  let ?items = "[t, b, s] @ accs"
  have sm: "0 \<le> calculateStyleMatch ?items \<and> calculateStyleMatch ?items \<le> 1"
    by (rule calculateStyleMatch_bounds)
  have ms: "match_score x = rat_of_int (Math_round (calculateStyleMatch ?items * 100)) / 100"
    unfolding x' makeOutfit_scores(2) by (simp add: makeOutfit_scores(1))
  have m: "0 \<le> match_score x \<and> match_score x \<le> 1"
    unfolding ms using sm by (intro round2_bounds) simp_all
  have sb: "score_breakdown x =
     \<lparr>color_harmony = calculateColorHarmony ?items, style_match = calculateStyleMatch ?items,
      brand_cohesion = calculateBrandCohesion ?items, price_balance = calculatePriceBalance ?items,
      season_fit = calculateSeasonFit ?items (req_season request)\<rparr>"
    unfolding x' by (rule makeOutfit_scores(1))
  from response_plain_composite[OF plain x] obtain c where
    c: "brand_cohesion (score_breakdown x) = Some c" by blast
  then have "calculateBrandCohesion ?items = Some c" by (simp add: sb)
  then have "0 \<le> c \<and> c \<le> 1" by (rule calculateBrandCohesion_bounds)
  with c m show ?thesis
    using calculateColorHarmony_bounds[of ?items] sm
      calculatePriceBalance_bounds[of ?items] calculateSeasonFit_bounds[of ?items "req_season request"]
    by (simp add: sb)
qed

section \<open>The claims of the specification\<close>

text \<open>
  C2, as stated, fails on the truncation: for the request with \<open>num_outfits = 0\<close> the
  response of the scenario catalog is not truncated to 0 entries.
\<close>

theorem truncation_to_num_outfits_counterexample:
  "num_outfits zeroRequest = Some 0 \<and>
   getProductById scenarioCatalog (base_product_id zeroRequest) = Some TOP_001 \<and>
   \<not> int (length (outfits (generateOutfitRecommendations env0 scenarioCatalog zeroRequest))) \<le> 0"
proof -
  have found: "getProductById scenarioCatalog (base_product_id zeroRequest) = Some TOP_001"
    by (simp add: zeroRequest_def requestFor_fields scenario_lookup)
  let ?pools = "\<lparr>allTops = [TOP_001], allBottoms = [BOTTOM_001], allFootwear = [SHOE_001],
      allAccessories = [ACC_001]\<rparr>"
  let ?init = "\<lparr>st_outfits = [], st_used = {}, st_rand = 0\<rparr>"
  have "generateLoop env0 zeroRequest TOP_001 ''tops'' ?pools 3 0 ?init =
        generateLoop env0 zeroRequest TOP_001 ''tops'' ?pools 3 (0 + 1)
          (attemptBody env0 zeroRequest TOP_001 ''tops'' ?pools 0 ?init)"
    by (subst generateLoop.simps) simp
  moreover have "length (st_outfits (attemptBody env0 zeroRequest TOP_001 ''tops'' ?pools 0 ?init)) = 1"
    by (simp add: scenario_first_attempt[OF scenario_accessory])
  ultimately have "1 \<le> length (st_outfits (generateLoop env0 zeroRequest TOP_001 ''tops'' ?pools 3 0 ?init))"
    using generateLoop_mono[of "attemptBody env0 zeroRequest TOP_001 ''tops'' ?pools 0 ?init"
            env0 zeroRequest TOP_001 "''tops''" ?pools 3 "0 + 1"]
    by simp
  then have "1 \<le> length (outfits (generateOutfitRecommendations env0 scenarioCatalog zeroRequest))"
    using outfits_found[OF found, of env0]
    by (simp add: scenario_pools scenario_base_category numOutfitsOf_def zeroRequest_def
          requestFor_fields length_sortDescending)
  with found show ?thesis by (auto simp: zeroRequest_def requestFor_fields)
qed

text \<open>
  C2, amended.  For a request whose base product and priced pool products have brands that
  are no names of inherited object properties (their composite scores are numbers), the
  outfits of the response are in descending order of the composite score
  0.35 color_harmony + 0.30 style_match + 0.20 brand_cohesion + 0.00 price_balance +
  0.15 season_fit of their breakdowns, and there are at most \<open>numOutfits\<close> of them (none when
  it is negative), where \<open>numOutfits\<close> is the requested \<open>num_outfits\<close>, or 3 when that is
  absent or 0.  The composite score is not a field of the outfits returned.
\<close>

theorem outfits_ranked_by_composite_score:
  assumes "plainBrands cat request"
  shows
  "(let score = (\<lambda>x. color_harmony (score_breakdown x) * (35 / 100) +
                      style_match (score_breakdown x) * (30 / 100) +
                      the (brand_cohesion (score_breakdown x)) * (20 / 100) +
                      price_balance (score_breakdown x) * (0 / 100) +
                      season_fit (score_breakdown x) * (15 / 100));
        numOutfits = (case num_outfits request of None \<Rightarrow> 3 | Some n \<Rightarrow> if n = 0 then 3 else n);
        result = outfits (generateOutfitRecommendations env cat request)
    in (\<forall>x \<in> set result. brand_cohesion (score_breakdown x) \<noteq> None) \<and>
       sorted_wrt (\<lambda>a b. score b \<le> score a) result \<and> int (length result) \<le> max 0 numOutfits)"
proof -
  let ?score = "\<lambda>x. color_harmony (score_breakdown x) * (35 / 100) +
                      style_match (score_breakdown x) * (30 / 100) +
                      the (brand_cohesion (score_breakdown x)) * (20 / 100) +
                      price_balance (score_breakdown x) * (0 / 100) +
                      season_fit (score_breakdown x) * (15 / 100)"
  let ?result = "outfits (generateOutfitRecommendations env cat request)"
  have c: "brand_cohesion (score_breakdown x) \<noteq> None \<and>
           the (compositeScore (score_breakdown x)) = ?score x" if "x \<in> set ?result" for x
    using response_plain_composite[OF assms that] by auto
  have "sorted_wrt (\<lambda>a b. the (compositeScore (score_breakdown b))
                             \<le> the (compositeScore (score_breakdown a))) ?result"
    using assms by (rule outfits_sorted)
  then have "sorted_wrt (\<lambda>a b. ?score b \<le> ?score a) ?result"
  proof (rule sorted_wrt_mono_rel[rotated])
    fix a b
    assume "a \<in> set ?result" "b \<in> set ?result"
      "the (compositeScore (score_breakdown b)) \<le> the (compositeScore (score_breakdown a))"
    then show "?score b \<le> ?score a" using c[of a] c[of b] by simp
  qed
  with c outfits_length[of env cat request] show ?thesis
    by (simp add: numOutfitsOf_def Let_def)
qed

theorem outfits_ranked_by_composite_score_witness:
  "plainBrands twoBottomCatalog twoRequest \<and>
   map (\<lambda>x. (slotTriple x, compositeScore (score_breakdown x)))
     (outfits (generateOutfitRecommendations env1 twoBottomCatalog twoRequest)) =
     [((''TOP_001'', ''BOTTOM_001'', ''SHOE_001''), Some (1529 / 1600)),
      ((''TOP_001'', ''BOTTOM_002'', ''SHOE_001''), Some (2117 / 2400))] \<and>
   sorted_wrt
     (\<lambda>a b. color_harmony (score_breakdown b) * (35 / 100) +
             style_match (score_breakdown b) * (30 / 100) +
             the (brand_cohesion (score_breakdown b)) * (20 / 100) +
             price_balance (score_breakdown b) * (0 / 100) +
             season_fit (score_breakdown b) * (15 / 100)
           \<le> color_harmony (score_breakdown a) * (35 / 100) +
             style_match (score_breakdown a) * (30 / 100) +
             the (brand_cohesion (score_breakdown a)) * (20 / 100) +
             price_balance (score_breakdown a) * (0 / 100) +
             season_fit (score_breakdown a) * (15 / 100))
     (outfits (generateOutfitRecommendations env1 twoBottomCatalog twoRequest)) \<and>
   int (length (outfits (generateOutfitRecommendations env1 twoBottomCatalog twoRequest))) \<le> 2"
proof -
  have h: "plainBrands twoBottomCatalog twoRequest"
    by (simp add: plainBrands_def twoBottom_lookup twoBottom_pools scenario_plain)
  have v: "map (\<lambda>x. (slotTriple x, compositeScore (score_breakdown x)))
     (outfits (generateOutfitRecommendations env1 twoBottomCatalog twoRequest)) =
     [((''TOP_001'', ''BOTTOM_001'', ''SHOE_001''), Some (1529 / 1600)),
      ((''TOP_001'', ''BOTTOM_002'', ''SHOE_001''), Some (2117 / 2400))]"
    using twoBottom_composites[of "(1700000000000, 0)"]
    by (simp add: twoBottom_outfits slotTriple_def makeOutfit_fields makeOutfit_scores(3)
          scenario_sku_ids more_fields)
  have n: "num_outfits twoRequest = Some 2" by (simp add: twoRequest_def requestFor_fields)
  from outfits_ranked_by_composite_score[OF h, of env1] h v show ?thesis
    by (simp add: Let_def n)
qed




text \<open>
  C4.  For a request whose \<open>base_product_id\<close> does not resolve to a catalog product, the
  engine returns (it has no failing branch on this path) the response with an empty outfit
  list, the placeholder base product, the elapsed time between the two clock readings, which
  is not negative when the clock does not run backwards, and \<open>cache_hit = false\<close>.
\<close>

theorem unresolved_base_product_response:
  assumes "getProductById cat (base_product_id request) = None"
  shows "generateOutfitRecommendations env cat request =
           \<lparr>outfits = [], base_product = None,
            processing_time_ms = performance_now env 1 - performance_now env 0,
            cache_hit = False\<rparr> \<and>
         (performance_now env 0 \<le> performance_now env 1 \<longrightarrow>
            0 \<le> processing_time_ms (generateOutfitRecommendations env cat request))"
  using assms by (simp add: outfits_not_found)

theorem unresolved_base_product_response_witness:
  "getProductById scenarioCatalog (base_product_id (requestFor ''NOT_REAL'' (Some 3))) = None \<and>
   performance_now env0 0 \<le> performance_now env0 1 \<and>
   generateOutfitRecommendations env0 scenarioCatalog (requestFor ''NOT_REAL'' (Some 3)) =
     \<lparr>outfits = [], base_product = None, processing_time_ms = 1234 / 1000, cache_hit = False\<rparr> \<and>
   0 \<le> processing_time_ms
         (generateOutfitRecommendations env0 scenarioCatalog (requestFor ''NOT_REAL'' (Some 3)))"
proof -
  have h: "getProductById scenarioCatalog (base_product_id (requestFor ''NOT_REAL'' (Some 3))) = None"
    by (simp add: requestFor_fields scenario_lookup)
  have c: "performance_now env0 0 \<le> performance_now env0 1"
    by (simp add: env0_def)
  from unresolved_base_product_response[OF h, of env0] h c show ?thesis
    by (simp add: env0_def)
qed

text \<open>
  C5.  The brand cohesion of an outfit does not always lie in \<open>[0, 1]\<close>: for a product of the
  brand \<open>Constructor\<close> the lookup in the brand table finds the inherited property
  \<^verbatim>\<open>constructor\<close>, the default tier 2 does not apply, and the brand cohesion and the
  composite score of the outfit that the engine returns are NaN.
\<close>

theorem constructor_brand_cohesion_not_a_number:
  "brand_name TOP_002 = ''Constructor'' \<and>
   getProductById constructorCatalog (base_product_id constructorRequest) = Some TOP_002 \<and>
   map (\<lambda>x. (slotTriple x, brand_cohesion (score_breakdown x), compositeScore (score_breakdown x)))
     (outfits (generateOutfitRecommendations env0 constructorCatalog constructorRequest)) =
     [((''TOP_002'', ''BOTTOM_001'', ''SHOE_001''), None, None)]"
proof -
  have "brand_name TOP_002 = ''Constructor''" by (simp add: TOP_002_def)
  then show ?thesis
    by (simp add: constructor_lookup constructor_outfits slotTriple_def makeOutfit_fields
          makeOutfit_scores(1) constructor_cohesion compositeScore_def scenario_sku_ids more_fields)
qed

text \<open>
  C6.  The base category is found as the claim says (tops, then bottoms, then footwear, else
  accessories), but a base product of the category \<^verbatim>\<open>'accessories'\<close> is placed in no slot:
  for the base product \<open>ACC_002\<close> the engine returns one outfit, whose accessory is
  \<open>ACC_001\<close>, and which does not contain the base product.
\<close>

theorem accessory_base_product_not_in_outfit:
  "getProductById twoAccessoryCatalog (base_product_id accessoryRequest) = Some ACC_002 \<and>
   base_product (generateOutfitRecommendations env0 twoAccessoryCatalog accessoryRequest) = Some ACC_002 \<and>
   baseCategoryOf (pricedPools twoAccessoryCatalog) ACC_002 = ''accessories'' \<and>
   map (\<lambda>x. [top_item x, bottom_item x, footwear x] @ accessories x)
     (outfits (generateOutfitRecommendations env0 twoAccessoryCatalog accessoryRequest)) =
     [[TOP_001, BOTTOM_001, SHOE_001, ACC_001]] \<and>
   ACC_002 \<notin> set [TOP_001, BOTTOM_001, SHOE_001, ACC_001]"
proof -
  have found: "getProductById twoAccessoryCatalog (base_product_id accessoryRequest) = Some ACC_002"
    by (simp add: accessoryRequest_def requestFor_fields scenario_lookup)
  from found base_product_found[OF found, of env0] show ?thesis
    by (simp add: accessory_base_outfits makeOutfit_fields twoAccessory_pools
          scenario_base_category scenario_neq)
qed




text \<open>
  C8.  The color-harmony matrix and the style-compatibility matrix are symmetric, and both
  are total: for all color families \<open>a\<close>, \<open>b\<close> the entry for \<open>(a, b)\<close> exists and equals the
  entry for \<open>(b, a)\<close>, and likewise for all style types.
\<close>

theorem matrices_symmetric_total:
  "(\<forall>a b. colorLookup a b = colorLookup b a \<and> colorLookup a b \<noteq> None) \<and>
   (\<forall>s t. styleLookup s t = styleLookup t s \<and> styleLookup s t \<noteq> None)"
  using color_matrix_facts styleLookup_sym styleLookup_total by blast

text \<open>
  C9, as stated, fails on the white-navy entry: it does not begin with 0.85.
\<close>

theorem white_navy_entry_counterexample:
  "\<not> (85 / 100 \<le> colorScore white navy \<and> colorScore white navy < 86 / 100)"
  by (simp add: colorScore_def colorLookup_def COLOR_HARMONY_def)

text \<open>
  C9, amended.  In the color-harmony matrix the white-navy entry is 0.95 and the
  white-white entry is 0.6.  The color harmony of an item list is the mean of the matrix
  scores over all unordered pairs of its items (0.5 for fewer than two items): for the
  three mandatory items of the scenario it is (0.95 + 0.6 + 0.95) / 3, and for the outfit
  of the scenario, with its black accessory, the mean over six pairs.
\<close>

theorem color_harmony_is_pairwise_mean:
  "colorLookup white navy = Some (95 / 100) \<and> colorLookup navy white = Some (95 / 100) \<and>
   colorLookup white white = Some (6 / 10) \<and>
   (\<forall>items. calculateColorHarmony items =
      (if length items < 2 then 5 / 10
       else sum_list (map (\<lambda>(p, q). colorScore (colorOf p) (colorOf q)) (allPairs items))
              / rat_of_nat (length (allPairs items)))) \<and>
   calculateColorHarmony [TOP_001, BOTTOM_001, SHOE_001] = (95 / 100 + 6 / 10 + 95 / 100) / 3 \<and>
   color_harmony (score_breakdown scenarioOutfit) =
     (95 / 100 + 6 / 10 + 1 + 95 / 100 + 9 / 10 + 1) / 6"
proof -
  have "colorLookup white navy = Some (95 / 100)" "colorLookup navy white = Some (95 / 100)"
    "colorLookup white white = Some (6 / 10)"
    by (simp_all add: colorLookup_def COLOR_HARMONY_def)
  moreover have "calculateColorHarmony [TOP_001, BOTTOM_001, SHOE_001] = (95 / 100 + 6 / 10 + 95 / 100) / 3"
    by code_simp
  moreover have "color_harmony (score_breakdown scenarioOutfit) =
     (95 / 100 + 6 / 10 + 1 + 95 / 100 + 9 / 10 + 1) / 6"
    by (simp add: scenario_breakdown)
  ultimately show ?thesis using calculateColorHarmony_mean by blast
qed

text \<open>
  C10, as stated, fails for a catalog that cannot fill the mandatory slots: with no bottoms
  in the catalog, the request with \<open>num_outfits = 0\<close> and a resolvable base product gets
  zero outfits.
\<close>

theorem zero_num_outfits_counterexample:
  "num_outfits zeroRequest = Some 0 \<and>
   getProductById noBottomCatalog (base_product_id zeroRequest) = Some TOP_001 \<and>
   outfits (generateOutfitRecommendations env0 noBottomCatalog zeroRequest) = []"
proof -
  have found: "getProductById noBottomCatalog (base_product_id zeroRequest) = Some TOP_001"
    by (simp add: zeroRequest_def requestFor_fields scenario_lookup)
  let ?pools = "\<lparr>allTops = [TOP_001], allBottoms = [], allFootwear = [SHOE_001],
      allAccessories = [ACC_001]\<rparr>"
  have "st_outfits (generateLoop env0 zeroRequest TOP_001 ''tops'' ?pools n 0
                     \<lparr>st_outfits = [], st_used = {}, st_rand = 0\<rparr>) = []" for n
  proof (rule generateLoop_invariant)
    show "st_outfits \<lparr>st_outfits = [], st_used = {}, st_rand = 0\<rparr> = []" by simp
  next
    fix a and s :: LoopState
    assume "st_outfits s = []"
    then show "st_outfits (attemptBody env0 zeroRequest TOP_001 ''tops'' ?pools a s) = []"
      by (simp add: no_bottom_no_outfit)
  qed
  with outfits_found[OF found, of env0] found show ?thesis
    by (simp add: noBottom_pools scenario_base_category zeroRequest_def requestFor_fields
          sortDescending_Nil)
qed

text \<open>
  C10, amended.  A request with \<open>num_outfits = 0\<close> is answered exactly as the same request
  with \<open>num_outfits = 3\<close>, and as the one with no \<open>num_outfits\<close>: 0 is falsy and the engine
  takes the default 3, so a caller cannot ask for an empty list.  The answer has at least one
  outfit when the base product resolves, \<^verbatim>\<open>Math.random\<close> returns values in \<open>[0, 1)\<close>, and
  each mandatory slot other than the base product's own has a priced candidate that is not
  the base product and not in a pool filled before it.
\<close>

theorem zero_num_outfits_defaults_to_three:
  "generateOutfitRecommendations env cat (request\<lparr>num_outfits := Some 0\<rparr>) =
     generateOutfitRecommendations env cat (request\<lparr>num_outfits := Some 3\<rparr>) \<and>
   generateOutfitRecommendations env cat (request\<lparr>num_outfits := Some 0\<rparr>) =
     generateOutfitRecommendations env cat (request\<lparr>num_outfits := None\<rparr>) \<and>
   (\<forall>baseProduct.
      getProductById cat (base_product_id request) = Some baseProduct \<and> randomInRange env \<and>
      canFill baseProduct (baseCategoryOf (pricedPools cat) baseProduct) (pricedPools cat) \<longrightarrow>
      outfits (generateOutfitRecommendations env cat (request\<lparr>num_outfits := Some 0\<rparr>)) \<noteq> [])"
proof (intro conjI allI impI)
  show "generateOutfitRecommendations env cat (request\<lparr>num_outfits := Some 0\<rparr>) =
          generateOutfitRecommendations env cat (request\<lparr>num_outfits := Some 3\<rparr>)"
    by (rule response_num_outfits) (simp add: numOutfitsOf_def)
  show "generateOutfitRecommendations env cat (request\<lparr>num_outfits := Some 0\<rparr>) =
          generateOutfitRecommendations env cat (request\<lparr>num_outfits := None\<rparr>)"
    by (rule response_num_outfits) (simp add: numOutfitsOf_def)
next
  fix baseProduct
  assume h: "getProductById cat (base_product_id request) = Some baseProduct \<and> randomInRange env \<and>
      canFill baseProduct (baseCategoryOf (pricedPools cat) baseProduct) (pricedPools cat)"
  show "outfits (generateOutfitRecommendations env cat (request\<lparr>num_outfits := Some 0\<rparr>)) \<noteq> []"
  proof (rule first_attempt_gives_outfit)
    show "getProductById cat (base_product_id (request\<lparr>num_outfits := Some 0\<rparr>)) = Some baseProduct"
      using h by simp
    show "randomInRange env" using h by simp
    show "canFill baseProduct (baseCategoryOf (pricedPools cat) baseProduct) (pricedPools cat)"
      using h by simp
    show "0 < numOutfitsOf (request\<lparr>num_outfits := Some 0\<rparr>)"
      by (simp add: numOutfitsOf_def)
  qed
qed

theorem zero_num_outfits_defaults_to_three_witness:
  "getProductById scenarioCatalog (base_product_id scenarioRequest) = Some TOP_001 \<and>
   randomInRange env0 \<and>
   canFill TOP_001 (baseCategoryOf (pricedPools scenarioCatalog) TOP_001) (pricedPools scenarioCatalog) \<and>
   outfits (generateOutfitRecommendations env0 scenarioCatalog (scenarioRequest\<lparr>num_outfits := Some 0\<rparr>)) \<noteq> [] \<and>
   generateOutfitRecommendations env0 scenarioCatalog (scenarioRequest\<lparr>num_outfits := Some 0\<rparr>) =
     generateOutfitRecommendations env0 scenarioCatalog (scenarioRequest\<lparr>num_outfits := Some 3\<rparr>)"
proof -
  have found: "getProductById scenarioCatalog (base_product_id scenarioRequest) = Some TOP_001"
    by (simp add: scenarioRequest_def requestFor_fields scenario_lookup)
  have fill: "canFill TOP_001 (baseCategoryOf (pricedPools scenarioCatalog) TOP_001) (pricedPools scenarioCatalog)"
    by (simp add: canFill_def scenario_pools scenario_base_category scenario_neq)
  from zero_num_outfits_defaults_to_three[of env0 scenarioCatalog scenarioRequest]
    found fill env0_in_range
  show ?thesis by blast
qed
end
